theory Spec2Isabelle
  imports Complex_Main
begin

section \<open>Registration, verification and scoring of the Moltbook agent recruiter\<close>

text \<open>
  A shallow embedding of \<^verbatim>\<open>scripts/agent_registration_system.py\<close> (class
  \<^verbatim>\<open>MoltbookAgentRecruiter\<close>), of the submission handler
  \<^verbatim>\<open>register_agent\<close> of \<^verbatim>\<open>scripts/registration_api_server.py\<close> and of
  \<^verbatim>\<open>handler.do_POST\<close> of \<^verbatim>\<open>backend/register.py\<close>.

  Conventions of the embedding.
  \<^item> A Python exception is a value \<open>Inl e\<close> of a sum type; a normal return is \<open>Inr v\<close>.
  \<^item> A dictionary read with \<^verbatim>\<open>d.get(key, default)\<close> is a record field of option type:
    \<open>None\<close> is the absent key, and \<open>get_or\<close> supplies the default.
  \<^item> A number is a Python \<^verbatim>\<open>int\<close> or \<^verbatim>\<open>float\<close> (section Numbers); a finite
    \<^verbatim>\<open>float\<close> is the rational it denotes, so rounding is not part of the model, while
    overflow, the infinities and \<^verbatim>\<open>nan\<close> are.
  \<^item> A point in time is a whole number of seconds; \<^verbatim>\<open>isoformat()\<close> strings of such
    points are kept as the number they print.
  \<^item> Strings are lists of ASCII characters.
\<close>

subsection \<open>Exceptions and dictionary defaults\<close>

datatype pyexn =
    KeyError | AttributeError | TypeError | ValueError | OverflowError | BadSignature

definition get_or :: "'a option \<Rightarrow> 'a \<Rightarrow> 'a" where
  "get_or field dflt = (case field of None \<Rightarrow> dflt | Some v \<Rightarrow> v)"

subsection \<open>Numbers\<close>

text \<open>
  A JSON number as Python holds it: an \<^verbatim>\<open>int\<close> of any size, or a \<^verbatim>\<open>float\<close>, which is
  a finite double, an infinity or \<^verbatim>\<open>nan\<close>. A finite double is kept as the rational it
  denotes, and the rounding of a result to the nearest double is not modelled. Its range
  is: a result whose magnitude is \<open>2^1024 - 2^970\<close> or more does not round to a finite
  double. A float operation then yields an infinity; the conversion of an \<^verbatim>\<open>int\<close> to
  \<^verbatim>\<open>float\<close> in mixed arithmetic and the true division of two \<^verbatim>\<open>int\<close>s raise
  \<^verbatim>\<open>OverflowError\<close>.
\<close>

datatype pyfloat = Finite rat | PosInf | NegInf | NaN

datatype pynum = PyInt int | PyFloat pyfloat

definition double_limit :: rat where
  "double_limit = 2 ^ 1024 - 2 ^ 970"

definition to_float :: "rat \<Rightarrow> pyfloat" where
  "to_float r =
     (if double_limit \<le> r then PosInf else if r \<le> - double_limit then NegInf else Finite r)"

definition float_of_int :: "int \<Rightarrow> pyexn + pyfloat" where
  "float_of_int i =
     (if double_limit \<le> \<bar>of_int i\<bar> then Inl OverflowError else Inr (Finite (of_int i)))"

fun float_add :: "pyfloat \<Rightarrow> pyfloat \<Rightarrow> pyfloat" where
  "float_add (Finite a) (Finite b) = to_float (a + b)"
| "float_add NaN g = NaN"
| "float_add f NaN = NaN"
| "float_add PosInf NegInf = NaN"
| "float_add NegInf PosInf = NaN"
| "float_add PosInf g = PosInf"
| "float_add f PosInf = PosInf"
| "float_add NegInf g = NegInf"
| "float_add f NegInf = NegInf"

text \<open>\<^verbatim>\<open>a < b\<close>; every comparison with \<^verbatim>\<open>nan\<close> is false.\<close>

fun float_lt :: "pyfloat \<Rightarrow> pyfloat \<Rightarrow> bool" where
  "float_lt (Finite a) (Finite b) = (a < b)"
| "float_lt NaN g = False"
| "float_lt f NaN = False"
| "float_lt f NegInf = False"
| "float_lt NegInf g = True"
| "float_lt PosInf g = False"
| "float_lt f PosInf = True"

text \<open>
  Python compares an \<^verbatim>\<open>int\<close> with a \<^verbatim>\<open>float\<close> by their exact values, without
  converting; \<open>exact\<close> is that value.
\<close>

definition exact :: "pynum \<Rightarrow> pyfloat" where
  "exact x = (case x of PyInt i \<Rightarrow> Finite (of_int i) | PyFloat f \<Rightarrow> f)"

definition py_lt :: "pynum \<Rightarrow> pynum \<Rightarrow> bool" where
  "py_lt a b = float_lt (exact a) (exact b)"

definition py_le :: "pynum \<Rightarrow> pynum \<Rightarrow> bool" where
  "py_le a b = (exact a \<noteq> NaN \<and> exact b \<noteq> NaN \<and> \<not> float_lt (exact b) (exact a))"

text \<open>\<^verbatim>\<open>min(a, b)\<close> keeps the first argument unless the second is smaller.\<close>

definition py_min :: "pynum \<Rightarrow> pynum \<Rightarrow> pynum" where
  "py_min a b = (if py_lt b a then b else a)"

text \<open>\<^verbatim>\<open>x / 10\<close>, true division, whose result is a \<^verbatim>\<open>float\<close>.\<close>

definition div10 :: "pynum \<Rightarrow> pyexn + pynum" where
  "div10 x =
     (case x of
        PyInt i \<Rightarrow>
          if double_limit \<le> \<bar>of_int i / 10\<bar> then Inl OverflowError
          else Inr (PyFloat (Finite (of_int i / 10)))
      | PyFloat (Finite r) \<Rightarrow> Inr (PyFloat (Finite (r / 10)))
      | PyFloat f \<Rightarrow> Inr (PyFloat f))"

text \<open>\<^verbatim>\<open>a + b\<close>: an \<^verbatim>\<open>int\<close> operand is converted when the other is a \<^verbatim>\<open>float\<close>.\<close>

definition py_add :: "pynum \<Rightarrow> pynum \<Rightarrow> pyexn + pynum" where
  "py_add a b =
     (case (a, b) of
        (PyInt i, PyInt j) \<Rightarrow> Inr (PyInt (i + j))
      | (PyInt i, PyFloat g) \<Rightarrow>
          (case float_of_int i of Inl e \<Rightarrow> Inl e | Inr f \<Rightarrow> Inr (PyFloat (float_add f g)))
      | (PyFloat f, PyInt j) \<Rightarrow>
          (case float_of_int j of Inl e \<Rightarrow> Inl e | Inr g \<Rightarrow> Inr (PyFloat (float_add f g)))
      | (PyFloat f, PyFloat g) \<Rightarrow> Inr (PyFloat (float_add f g)))"

text \<open>Sequencing of steps that may raise: the first exception ends the computation.\<close>

definition and_then :: "pyexn + 'a \<Rightarrow> ('a \<Rightarrow> pyexn + 'b) \<Rightarrow> pyexn + 'b" where
  "and_then r f = (case r of Inl e \<Rightarrow> Inl e | Inr v \<Rightarrow> f v)"

subsection \<open>The dataclasses and the recruiter's state\<close>

record AgentProfile =
  ap_moltbook_username :: string
  ap_blockchain_address :: string
  ap_specialization :: "string list"
  ap_karma_score :: rat
  ap_join_timestamp :: int
  ap_verification_status :: string
  ap_governance_weight :: rat
  ap_preferred_focus_areas :: "string list"
  ap_contribution_history :: "(string \<times> string) list list"
  ap_identity_proof :: string

record RegistrationRequest =
  rr_request_id :: string
  rr_moltbook_username :: string
  rr_blockchain_address :: string
  rr_specialization :: "string list"
  rr_motivation :: string
  rr_timestamp :: int
  rr_verification_challenge :: string
  rr_status :: string

text \<open>
  \<^verbatim>\<open>self.pending_registrations\<close> is one dictionary with two kinds of entry: under a
  username, the invitation written by \<^verbatim>\<open>generate_registration_url\<close> (keys
  \<^verbatim>\<open>challenge\<close>, \<^verbatim>\<open>timestamp\<close>, \<^verbatim>\<open>status\<close>); under a request id, the
  \<^verbatim>\<open>asdict\<close> of a \<^verbatim>\<open>RegistrationRequest\<close>. Reading a key of the other kind of
  entry raises \<^verbatim>\<open>KeyError\<close>.
\<close>

datatype pending_entry =
    Invitation (challenge: string) (inv_timestamp: int) (inv_status: string)
  | Request RegistrationRequest

record config =
  min_karma_requirement :: rat
  auto_approve_threshold :: rat
  specialization_categories :: "string list"

text \<open>
  The calls that leave the process are recorded in order: the rewrite of
  \<^verbatim>\<open>registered_agents.json\<close>, a direct message, and the two placeholders of
  \<^verbatim>\<open>start_onboarding\<close> (\<^verbatim>\<open>register_agent_on_chain\<close>, and
  \<^verbatim>\<open>allocate_initial_tokens\<close> with its \<^verbatim>\<open>initial_allocation = 1000\<close>).
  Warnings written to the log are not recorded.
\<close>

datatype effect =
    Saved_agent_database
  | Sent_dm string string
  | Registered_on_chain string
  | Allocated_tokens string nat

record recruiter =
  config :: config
  registered_agents :: "string \<rightharpoonup> AgentProfile"
  pending_registrations :: "string \<rightharpoonup> pending_entry"
  effects :: "effect list"

text \<open>
  A registration submission as \<^verbatim>\<open>process_registration_request\<close> receives it, and a
  candidate as the Moltbook API returns it. The field \<open>last_active\<close> holds what
  \<^verbatim>\<open>datetime.fromisoformat\<close> makes of the string: a naive datetime (no UTC offset, as
  in \<^verbatim>\<open>2024-05-01T10:00:00\<close>), an aware one (with an offset, as in
  \<^verbatim>\<open>2024-05-01T10:00:00+00:00\<close>), or no datetime at all (\<^verbatim>\<open>ValueError\<close>, or
  \<^verbatim>\<open>TypeError\<close> for a value that is not a string).
\<close>

record registration =
  reg_username :: "string option"
  reg_blockchain_address :: "string option"
  reg_verification_signature :: "string option"
  reg_challenge_response :: "string option"
  reg_specializations :: "string list option"
  reg_motivation :: "string option"

datatype iso_datetime = Unparseable | Naive int | Aware int

record candidate =
  username :: "string option"
  karma :: "pynum option"
  specializations :: "string list option"
  last_active :: "iso_datetime option"
  posts_per_month :: "pynum option"
  followers :: "pynum option"
  days_since_last_post :: "pynum option"
  community_rating :: "pynum option"
  recruitment_score :: "pynum option"

text \<open>
  What one call reads from outside the process: the clock (\<^verbatim>\<open>datetime.now()\<close> and
  \<^verbatim>\<open>int(time.time())\<close>, read once per call), the next outputs of
  \<^verbatim>\<open>secrets.token_hex(16)\<close> and \<^verbatim>\<open>secrets.token_urlsafe(32)\<close>, and the
  collaborators: \<^verbatim>\<open>web3.keccak\<close>, \<^verbatim>\<open>web3.eth.account.recover_message\<close> (which
  raises on a signature it cannot parse) and the profile fetch
  \<^verbatim>\<open>get_candidate_data\<close> (\<open>None\<close> for a failed fetch or an empty profile).
\<close>

record readings =
  clock :: int
  token_hex :: string
  token_urlsafe :: string

record collaborators =
  keccak :: "string \<Rightarrow> string"
  recover_message :: "string \<Rightarrow> string \<Rightarrow> pyexn + string"
  get_candidate_data :: "string \<Rightarrow> candidate option"

subsection \<open>Challenges\<close>

definition generate_registration_url :: "readings \<Rightarrow> recruiter \<Rightarrow> string \<Rightarrow> string \<times> recruiter" where
  "generate_registration_url rd st user =
     (let chal = token_urlsafe rd;
          st' = st\<lparr>pending_registrations :=
                   (pending_registrations st)(user \<mapsto> Invitation chal (clock rd) ''invited'')\<rparr>
      in (''https://governance.moltbook.com/register?user='' @ user @ ''&challenge='' @ chal, st'))"

definition verify_registration_challenge :: "recruiter \<Rightarrow> registration \<Rightarrow> pyexn + bool" where
  "verify_registration_challenge st reg =
     (let user = get_or (reg_username reg) '''';
          challenge_response = get_or (reg_challenge_response reg) ''''
      in case pending_registrations st user of
           None \<Rightarrow> Inr False
         | Some (Invitation expected_challenge _ _) \<Rightarrow> Inr (challenge_response = expected_challenge)
         | Some (Request _) \<Rightarrow> Inl KeyError)"

subsection \<open>Ownership of the claimed address\<close>

text \<open>\<^verbatim>\<open>str(n)\<close> for an integer: the decimal digits, with a sign when negative.\<close>

fun str_nat :: "nat \<Rightarrow> string" where
  "str_nat n =
     (if n < 10 then [''0123456789'' ! n] else str_nat (n div 10) @ [''0123456789'' ! (n mod 10)])"

declare str_nat.simps [simp del]

definition str_int :: "int \<Rightarrow> string" where
  "str_int i = (if i < 0 then CHR ''-'' # str_nat (nat (- i)) else str_nat (nat i))"

text \<open>\<^verbatim>\<open>str.lower()\<close> on ASCII text.\<close>

definition lower_char :: "char \<Rightarrow> char" where
  "lower_char c =
     (case map_of (zip ''ABCDEFGHIJKLMNOPQRSTUVWXYZ'' ''abcdefghijklmnopqrstuvwxyz'') c of
        Some l \<Rightarrow> l
      | None \<Rightarrow> c)"

definition lower :: "string \<Rightarrow> string" where
  "lower s = map lower_char s"

text \<open>
  The message that \<^verbatim>\<open>verify_address_ownership\<close> rebuilds at every call; its last line
  is \<^verbatim>\<open>int(time.time())\<close> at the moment of the call.
\<close>

definition ownership_message :: "string \<Rightarrow> int \<Rightarrow> string" where
  "ownership_message user t =
     ''Moltbook Governance Registration'' @ [CHR 0x0A] @ ''Username: '' @ user @ [CHR 0x0A]
       @ ''Timestamp: '' @ str_int t"

text \<open>The body of the \<^verbatim>\<open>try\<close> block: it raises what \<^verbatim>\<open>recover_message\<close> raises.\<close>

definition recover_and_compare ::
    "collaborators \<Rightarrow> readings \<Rightarrow> string \<Rightarrow> string \<Rightarrow> string \<Rightarrow> pyexn + bool" where
  "recover_and_compare co rd user address signature =
     (let message = ownership_message user (clock rd);
          message_hash = keccak co message
      in case recover_message co message_hash signature of
           Inl e \<Rightarrow> Inl e
         | Inr recovered_address \<Rightarrow> Inr (lower recovered_address = lower address))"

text \<open>\<^verbatim>\<open>except Exception\<close>: whatever the body raises becomes the result \<^verbatim>\<open>False\<close>.\<close>

definition verify_address_ownership ::
    "collaborators \<Rightarrow> readings \<Rightarrow> string \<Rightarrow> string \<Rightarrow> string \<Rightarrow> pyexn + bool" where
  "verify_address_ownership co rd user address signature =
     (case recover_and_compare co rd user address signature of
        Inl e \<Rightarrow> Inr False
      | Inr b \<Rightarrow> Inr b)"

text \<open>
  The library as the source calls it. \<^verbatim>\<open>Account.recover_message\<close> of
  \<^verbatim>\<open>eth_account\<close> takes a \<^verbatim>\<open>SignableMessage\<close> and reads its fields \<^verbatim>\<open>version\<close>,
  \<^verbatim>\<open>header\<close> and \<^verbatim>\<open>body\<close>. The source hands it \<^verbatim>\<open>message_hash\<close>, the
  \<^verbatim>\<open>HexBytes\<close> that \<^verbatim>\<open>web3.keccak\<close> returned, which has none of these, so the call
  raises \<^verbatim>\<open>AttributeError\<close> before it looks at the signature. \<open>deployed\<close> puts that
  library in the place of the \<open>recover_message\<close> of any collaborators.
\<close>

definition eth_account_recover_message :: "string \<Rightarrow> string \<Rightarrow> pyexn + string" where
  "eth_account_recover_message message_hash signature = Inl AttributeError"

definition deployed :: "collaborators \<Rightarrow> collaborators" where
  "deployed co = co\<lparr>recover_message := eth_account_recover_message\<rparr>"

text \<open>
  The comparison in the specification's words, case-insensitive equality: two strings
  of the same length whose characters at each position are the same, or are an ASCII
  capital letter (codes 65 to 90) and its small letter (32 above it).
\<close>

definition ascii_upper :: "char \<Rightarrow> bool" where
  "ascii_upper c = (65 \<le> (of_char c :: nat) \<and> (of_char c :: nat) \<le> 90)"

definition same_letter :: "char \<Rightarrow> char \<Rightarrow> bool" where
  "same_letter x y =
     (x = y
      \<or> (ascii_upper x \<and> (of_char y :: nat) = of_char x + 32)
      \<or> (ascii_upper y \<and> (of_char x :: nat) = of_char y + 32))"

definition equal_ignoring_case :: "string \<Rightarrow> string \<Rightarrow> bool" where
  "equal_ignoring_case a b = list_all2 same_letter a b"

subsection \<open>Requests: creation, evaluation, approval\<close>

definition create_registration_request ::
    "readings \<Rightarrow> recruiter \<Rightarrow> registration \<Rightarrow> string \<times> recruiter" where
  "create_registration_request rd st reg =
     (let request_id = token_hex rd;
          request = \<lparr>rr_request_id = request_id,
                     rr_moltbook_username = get_or (reg_username reg) '''',
                     rr_blockchain_address = get_or (reg_blockchain_address reg) '''',
                     rr_specialization = get_or (reg_specializations reg) [],
                     rr_motivation = get_or (reg_motivation reg) '''',
                     rr_timestamp = clock rd,
                     rr_verification_challenge = get_or (reg_challenge_response reg) '''',
                     rr_status = ''pending''\<rparr>
      in (request_id,
          st\<lparr>pending_registrations := (pending_registrations st)(request_id \<mapsto> Request request)\<rparr>))"

text \<open>\<^verbatim>\<open>len(set(specializations) & set(categories))\<close>.\<close>

definition matches :: "string list \<Rightarrow> string list \<Rightarrow> nat" where
  "matches specs categories = card (set specs \<inter> set categories)"

text \<open>
  The thresholds of the configuration are numbers of the JSON file; they enter
  comparisons only, which are exact, so they are kept as the rational they denote.
\<close>

definition calculate_approval_score :: "config \<Rightarrow> candidate \<Rightarrow> rat" where
  "calculate_approval_score cfg candidate_data =
     (if py_le (PyFloat (Finite (auto_approve_threshold cfg)))
               (get_or (karma candidate_data) (PyInt 0)) then 100 else 0)
     + (if py_le (get_or (days_since_last_post candidate_data) (PyInt 999)) (PyInt 3)
        then 50 else 0)
     + of_nat (matches (get_or (specializations candidate_data) []) (specialization_categories cfg)) * 20
     + (if py_le (PyFloat (Finite (9 / 2))) (get_or (community_rating candidate_data) (PyInt 0))
        then 30 else 0)"

text \<open>The welcome message, shortened to its headline.\<close>

definition welcome_message :: "string \<Rightarrow> string" where
  "welcome_message user = ''Welcome to Moltbook Futarchy Governance! Congratulations '' @ user"

definition start_onboarding :: "recruiter \<Rightarrow> string \<Rightarrow> recruiter" where
  "start_onboarding st user =
     st\<lparr>effects := effects st @
           [Sent_dm user (welcome_message user), Registered_on_chain user, Allocated_tokens user 1000]\<rparr>"

text \<open>
  \<^verbatim>\<open>approve_registration\<close> sets \<^verbatim>\<open>request['status'] = 'approved'\<close> and deletes the
  request from \<^verbatim>\<open>pending_registrations\<close> in the next statement, so the status it
  sets is not kept anywhere; the model goes straight to the deletion.
\<close>

definition approve_registration :: "readings \<Rightarrow> recruiter \<Rightarrow> string \<Rightarrow> pyexn + recruiter" where
  "approve_registration rd st request_id =
     (case pending_registrations st request_id of
        None \<Rightarrow> Inl KeyError
      | Some (Invitation _ _ _) \<Rightarrow> Inl KeyError
      | Some (Request request) \<Rightarrow>
          (let user = rr_moltbook_username request;
               agent_profile = \<lparr>ap_moltbook_username = user,
                                ap_blockchain_address = rr_blockchain_address request,
                                ap_specialization = rr_specialization request,
                                ap_karma_score = 0,
                                ap_join_timestamp = clock rd,
                                ap_verification_status = ''verified'',
                                ap_governance_weight = 0,
                                ap_preferred_focus_areas = [],
                                ap_contribution_history = [],
                                ap_identity_proof = rr_verification_challenge request\<rparr>;
               st1 = st\<lparr>registered_agents := (registered_agents st)(user \<mapsto> agent_profile),
                        effects := effects st @ [Saved_agent_database]\<rparr>;
               st2 = start_onboarding st1 user
           in Inr (st2\<lparr>pending_registrations := (pending_registrations st2)(request_id := None)\<rparr>)))"

definition set_status :: "recruiter \<Rightarrow> string \<Rightarrow> RegistrationRequest \<Rightarrow> string \<Rightarrow> recruiter" where
  "set_status st request_id request s =
     st\<lparr>pending_registrations :=
          (pending_registrations st)(request_id \<mapsto> Request (request\<lparr>rr_status := s\<rparr>))\<rparr>"

definition evaluate_registration_request ::
    "collaborators \<Rightarrow> readings \<Rightarrow> recruiter \<Rightarrow> string \<Rightarrow> pyexn + recruiter" where
  "evaluate_registration_request co rd st request_id =
     (case pending_registrations st request_id of
        None \<Rightarrow> Inr st
      | Some (Invitation _ _ _) \<Rightarrow> Inl KeyError
      | Some (Request request) \<Rightarrow>
          (case get_candidate_data co (rr_moltbook_username request) of
             None \<Rightarrow> Inr (set_status st request_id request ''rejected'')
           | Some candidate_data \<Rightarrow>
               if calculate_approval_score (config st) candidate_data
                    \<ge> auto_approve_threshold (config st)
               then approve_registration rd st request_id
               else Inr (set_status st request_id request ''manual_review'')))"

definition process_registration_request ::
    "collaborators \<Rightarrow> readings \<Rightarrow> recruiter \<Rightarrow> registration \<Rightarrow> pyexn + recruiter" where
  "process_registration_request co rd st reg =
     (let user = get_or (reg_username reg) '''';
          blockchain_address = get_or (reg_blockchain_address reg) '''';
          verification_signature = get_or (reg_verification_signature reg) ''''
      in case verify_registration_challenge st reg of
           Inl e \<Rightarrow> Inl e
         | Inr False \<Rightarrow> Inr st
         | Inr True \<Rightarrow>
             (case verify_address_ownership co rd user blockchain_address verification_signature of
                Inl e \<Rightarrow> Inl e
              | Inr False \<Rightarrow> Inr st
              | Inr True \<Rightarrow>
                  (case create_registration_request rd st reg of
                     (request_id, st') \<Rightarrow> evaluate_registration_request co rd st' request_id)))"

subsection \<open>Recruitment score and candidate filter\<close>

text \<open>
  \<^verbatim>\<open>calculate_candidate_score\<close>, statement by statement: \<^verbatim>\<open>score = 0\<close>, then four
  times \<^verbatim>\<open>score += min(..., cap)\<close>. The divisions and the additions raise
  \<^verbatim>\<open>OverflowError\<close> on an \<^verbatim>\<open>int\<close> out of the range of a double, and the function has
  no \<^verbatim>\<open>try\<close>.
\<close>

definition calculate_candidate_score :: "config \<Rightarrow> candidate \<Rightarrow> pyexn + pynum" where
  "calculate_candidate_score cfg c =
     and_then (div10 (get_or (karma c) (PyInt 0))) (\<lambda>karma_tenth.
     and_then (py_add (PyInt 0) (py_min karma_tenth (PyInt 40))) (\<lambda>score1.
     and_then (py_add score1
                 (py_min (PyInt (int (matches (get_or (specializations c) [])
                                        (specialization_categories cfg)) * 6))
                         (PyInt 30))) (\<lambda>score2.
     and_then (py_add score2 (py_min (get_or (posts_per_month c) (PyInt 0)) (PyInt 20))) (\<lambda>score3.
     and_then (div10 (get_or (followers c) (PyInt 0))) (\<lambda>followers_tenth.
     py_add score3 (py_min followers_tenth (PyInt 10)))))))"

text \<open>
  The test \<^verbatim>\<open>(datetime.now() - last_active_dt).days > 7\<close> inside
  \<^verbatim>\<open>try: ... except: pass\<close>. \<^verbatim>\<open>datetime.now()\<close> is naive, so the subtraction
  raises \<^verbatim>\<open>TypeError\<close> on an aware datetime, and the bare \<^verbatim>\<open>except\<close> swallows that
  as it swallows the parse error. \<^verbatim>\<open>timedelta.days\<close> is the floor of the difference
  in days.
\<close>

definition stale :: "int \<Rightarrow> iso_datetime \<Rightarrow> bool" where
  "stale now la =
     (case la of
        Naive t \<Rightarrow> (now - t) div 86400 > 7
      | Aware t \<Rightarrow> False
      | Unparseable \<Rightarrow> False)"

text \<open>
  The \<^verbatim>\<open>for\<close> loop of \<^verbatim>\<open>filter_candidates\<close>, building \<^verbatim>\<open>qualified\<close>. The score is
  computed outside the \<^verbatim>\<open>try\<close>, so an exception of \<^verbatim>\<open>calculate_candidate_score\<close> ends
  the loop and leaves \<^verbatim>\<open>filter_candidates\<close>.
\<close>

fun qualify :: "recruiter \<Rightarrow> int \<Rightarrow> candidate list \<Rightarrow> pyexn + candidate list" where
  "qualify st now [] = Inr []"
| "qualify st now (c # cs) =
     (if registered_agents st (get_or (username c) '''') \<noteq> None then qualify st now cs
      else if py_lt (get_or (karma c) (PyInt 0))
                    (PyFloat (Finite (min_karma_requirement (config st))))
           then qualify st now cs
      else if stale now (get_or (last_active c) Unparseable) then qualify st now cs
      else and_then (calculate_candidate_score (config st) c) (\<lambda>score.
           and_then (qualify st now cs) (\<lambda>rest.
             Inr (if py_lt (PyInt 70) score
                  then c\<lparr>recruitment_score := Some score\<rparr> # rest
                  else rest))))"

text \<open>
  \<^verbatim>\<open>qualified.sort(key=..., reverse=True)\<close> is a stable sort by descending score, here
  the stable insertion sort on the negated score. Every element of \<^verbatim>\<open>qualified\<close>
  carries its score, a finite number above 70 (an infinity or \<^verbatim>\<open>nan\<close> does not pass
  \<^verbatim>\<open>score > 70\<close> with every term capped), and \<open>sort_value\<close> is that number.
\<close>

definition sort_value :: "pynum \<Rightarrow> rat" where
  "sort_value x = (case exact x of Finite r \<Rightarrow> r | _ \<Rightarrow> 0)"

definition filter_candidates ::
    "recruiter \<Rightarrow> readings \<Rightarrow> candidate list \<Rightarrow> pyexn + candidate list" where
  "filter_candidates st rd candidates =
     and_then (qualify st (clock rd) candidates) (\<lambda>qualified_list.
       Inr (take 10
              (sort_key (\<lambda>x. - sort_value (get_or (recruitment_score x) (PyInt 0)))
                 qualified_list)))"

subsection \<open>The submission handlers\<close>

text \<open>A JSON value as \<^verbatim>\<open>request.get_json()\<close> or \<^verbatim>\<open>json.loads\<close> returns it.\<close>

datatype pyval =
    PNone
  | PBool bool
  | PInt int
  | PFloat rat
  | PStr string
  | PList "pyval list"
  | PDict "(string \<times> pyval) list"

text \<open>Python's truth value, as \<^verbatim>\<open>not data.get(field)\<close> tests it.\<close>

fun truthy :: "pyval \<Rightarrow> bool" where
  "truthy PNone = False"
| "truthy (PBool b) = b"
| "truthy (PInt i) = (i \<noteq> 0)"
| "truthy (PFloat r) = (r \<noteq> 0)"
| "truthy (PStr s) = (s \<noteq> [])"
| "truthy (PList vs) = (vs \<noteq> [])"
| "truthy (PDict kvs) = (kvs \<noteq> [])"

definition dict_get :: "(string \<times> pyval) list \<Rightarrow> string \<Rightarrow> pyval \<Rightarrow> pyval" where
  "dict_get kvs k dflt = (case map_of kvs k of None \<Rightarrow> dflt | Some v \<Rightarrow> v)"

definition dict_item :: "(string \<times> pyval) list \<Rightarrow> string \<Rightarrow> pyexn + pyval" where
  "dict_item kvs k = (case map_of kvs k of None \<Rightarrow> Inl KeyError | Some v \<Rightarrow> Inr v)"

definition required_fields :: "string list" where
  "required_fields =
     [''moltbook_username'', ''blockchain_address'', ''specializations'', ''verification_signature'']"

text \<open>The dictionary \<^verbatim>\<open>registration_request\<close> that both handlers build.\<close>

record submission =
  sub_username :: pyval
  sub_blockchain_address :: pyval
  sub_specializations :: pyval
  sub_motivation :: pyval
  sub_email :: pyval
  sub_verification_signature :: pyval
  sub_challenge_response :: pyval
  sub_timestamp :: string
  sub_ip_address :: string

text \<open>
  What a handler reads from outside: \<^verbatim>\<open>datetime.now().isoformat()\<close>, the client's
  address, \<^verbatim>\<open>hashlib.sha256(...).hexdigest()\<close>, and the text an f-string makes of a
  JSON value (the value itself when it is a string).
\<close>

record http_env =
  now_iso :: string
  remote_addr :: string
  sha256_hexdigest :: "string \<Rightarrow> string"
  py_str :: "pyval \<Rightarrow> string"

datatype response =
    Json nat "(string \<times> pyval) list"
  | Error_page nat string

text \<open>
  \<^verbatim>\<open>generate_registration_id\<close>, the same text in \<^verbatim>\<open>registration_api_server.py\<close>
  and in \<^verbatim>\<open>backend/register.py\<close>.
\<close>

definition generate_registration_id :: "http_env \<Rightarrow> submission \<Rightarrow> string" where
  "generate_registration_id env registration =
     take 16 (sha256_hexdigest env
       (py_str env (sub_username registration) @ sub_timestamp registration
          @ py_str env (sub_blockchain_address registration)))"

definition build_submission :: "http_env \<Rightarrow> (string \<times> pyval) list \<Rightarrow> pyexn + submission" where
  "build_submission env kvs =
     (case dict_item kvs ''moltbook_username'' of
        Inl e \<Rightarrow> Inl e
      | Inr u \<Rightarrow>
     (case dict_item kvs ''blockchain_address'' of
        Inl e \<Rightarrow> Inl e
      | Inr a \<Rightarrow>
     (case dict_item kvs ''specializations'' of
        Inl e \<Rightarrow> Inl e
      | Inr sp \<Rightarrow>
     (case dict_item kvs ''verification_signature'' of
        Inl e \<Rightarrow> Inl e
      | Inr sg \<Rightarrow>
          Inr \<lparr>sub_username = u,
               sub_blockchain_address = a,
               sub_specializations = sp,
               sub_motivation = dict_get kvs ''motivation'' (PStr ''''),
               sub_email = dict_get kvs ''email'' (PStr ''''),
               sub_verification_signature = sg,
               sub_challenge_response = dict_get kvs ''challenge_response'' (PStr ''''),
               sub_timestamp = now_iso env,
               sub_ip_address = remote_addr env\<rparr>))))"

text \<open>
  \<^verbatim>\<open>register_agent\<close> of the Flask server. The second component is the list kept in
  \<^verbatim>\<open>pending_registrations.json\<close>, to which \<^verbatim>\<open>save_registration_request\<close> appends.
  The body of the \<^verbatim>\<open>try\<close> comes first; \<^verbatim>\<open>data.get\<close> raises
  \<^verbatim>\<open>AttributeError\<close> when the JSON body is not an object.
\<close>

definition register_agent_try ::
    "http_env \<Rightarrow> submission list \<Rightarrow> pyval \<Rightarrow> pyexn + (response \<times> submission list)" where
  "register_agent_try env saved data =
     (case data of
        PDict kvs \<Rightarrow>
          (case find (\<lambda>field. \<not> truthy (dict_get kvs field PNone)) required_fields of
             Some field \<Rightarrow>
               Inr (Json 400 [(''success'', PBool False),
                              (''error'', PStr (''Missing required field: '' @ field))], saved)
           | None \<Rightarrow>
               (case build_submission env kvs of
                  Inl e \<Rightarrow> Inl e
                | Inr registration_request \<Rightarrow>
                    Inr (Json 200 [(''success'', PBool True),
                                   (''message'', PStr ''Registration submitted successfully''),
                                   (''registration_id'',
                                      PStr (generate_registration_id env registration_request))],
                         saved @ [registration_request])))
      | _ \<Rightarrow> Inl AttributeError)"

definition register_agent ::
    "http_env \<Rightarrow> submission list \<Rightarrow> pyval \<Rightarrow> response \<times> submission list" where
  "register_agent env saved data =
     (case register_agent_try env saved data of
        Inr r \<Rightarrow> r
      | Inl e \<Rightarrow> (Json 500 [(''success'', PBool False), (''error'', PStr ''Internal server error'')],
                  saved))"

text \<open>
  \<^verbatim>\<open>handler.do_POST\<close> of \<^verbatim>\<open>backend/register.py\<close>; its argument is the outcome of
  \<^verbatim>\<open>json.loads\<close> on the request body. It answers a missing field with
  \<^verbatim>\<open>send_error(400, ...)\<close> and saves nothing in either case.
\<close>

definition do_POST_try :: "http_env \<Rightarrow> pyexn + pyval \<Rightarrow> pyexn + response" where
  "do_POST_try env parsed =
     (case parsed of
        Inl e \<Rightarrow> Inl e
      | Inr (PDict kvs) \<Rightarrow>
          (case find (\<lambda>field. \<not> truthy (dict_get kvs field PNone)) required_fields of
             Some field \<Rightarrow> Inr (Error_page 400 (''Missing required field: '' @ field))
           | None \<Rightarrow>
               (case build_submission env kvs of
                  Inl e \<Rightarrow> Inl e
                | Inr registration_request \<Rightarrow>
                    Inr (Json 200 [(''success'', PBool True),
                                   (''message'', PStr ''Registration submitted successfully''),
                                   (''registration_id'',
                                      PStr (generate_registration_id env registration_request)),
                                   (''status'', PStr ''pending_verification'')])))
      | Inr _ \<Rightarrow> Inl AttributeError)"

definition do_POST :: "http_env \<Rightarrow> pyexn + pyval \<Rightarrow> response" where
  "do_POST env parsed =
     (case do_POST_try env parsed of
        Inr r \<Rightarrow> r
      | Inl e \<Rightarrow> Json 500 [(''success'', PBool False), (''error'', PStr ''Internal server error'')])"

subsection \<open>Scenarios\<close>

text \<open>
  The configuration written by \<^verbatim>\<open>create_default_config\<close>, and the recruiter as
  \<^verbatim>\<open>__init__\<close> leaves it when there is no \<^verbatim>\<open>registered_agents.json\<close>.
\<close>

definition default_config :: config where
  "default_config =
     \<lparr>min_karma_requirement = 50,
      auto_approve_threshold = 200,
      specialization_categories =
        [''smart_contract_development'', ''trading_algorithms'', ''data_analysis'',
         ''content_creation'', ''community_management'', ''research'', ''governance'',
         ''economic_modeling'', ''security_auditing'', ''user_experience'']\<rparr>"

definition fresh_recruiter :: recruiter where
  "fresh_recruiter =
     \<lparr>config = default_config,
      registered_agents = Map.empty,
      pending_registrations = Map.empty,
      effects = []\<rparr>"

text \<open>
  The candidate of the specification's scoring scenario (karma 500, two matching tags,
  15 posts a month, 50 followers), posted yesterday and rated 5; what she submits; and a
  world in which \<open>sig\<close> is her signature over the ownership message stamped \<open>t\<close> and the
  library recovers the signer from the hash it is handed, so that recovery from any other
  message yields another address.
\<close>

definition alice_data :: candidate where
  "alice_data =
     \<lparr>username = Some ''alice'',
      karma = Some (PyInt 500),
      specializations = Some [''governance'', ''research''],
      last_active = None,
      posts_per_month = Some (PyInt 15),
      followers = Some (PyInt 50),
      days_since_last_post = Some (PyInt 1),
      community_rating = Some (PyInt 5),
      recruitment_score = None\<rparr>"

definition alice_submits :: "string \<Rightarrow> registration" where
  "alice_submits response =
     \<lparr>reg_username = Some ''alice'',
      reg_blockchain_address = Some ''0xAbC1'',
      reg_verification_signature = Some ''sig'',
      reg_challenge_response = Some response,
      reg_specializations = Some [''governance'', ''research''],
      reg_motivation = None\<rparr>"

definition signed_at :: "int \<Rightarrow> collaborators" where
  "signed_at t =
     \<lparr>keccak = (\<lambda>message. message),
      recover_message =
        (\<lambda>message_hash signature.
           if signature \<noteq> ''sig'' then Inl BadSignature
           else if message_hash = ownership_message ''alice'' t then Inr ''0xabc1''
           else Inr ''0x9f00''),
      get_candidate_data = (\<lambda>user. if user = ''alice'' then Some alice_data else None)\<rparr>"

definition invited_alice :: recruiter where
  "invited_alice =
     snd (generate_registration_url \<lparr>clock = 0, token_hex = ''00'', token_urlsafe = ''tok''\<rparr>
            fresh_recruiter ''alice'')"

text \<open>
  The recruiter after \<open>alice\<close>'s registration was approved at time \<open>t\<close>, with the calls
  made so far; the invitation is still in \<^verbatim>\<open>pending_registrations\<close>.
\<close>

definition onboarding_calls :: "string \<Rightarrow> effect list" where
  "onboarding_calls user =
     [Saved_agent_database, Sent_dm user (welcome_message user), Registered_on_chain user,
      Allocated_tokens user 1000]"

definition approved_alice :: "int \<Rightarrow> effect list \<Rightarrow> recruiter" where
  "approved_alice t calls =
     \<lparr>config = default_config,
      registered_agents =
        [''alice'' \<mapsto>
           \<lparr>ap_moltbook_username = ''alice'',
            ap_blockchain_address = ''0xAbC1'',
            ap_specialization = [''governance'', ''research''],
            ap_karma_score = 0,
            ap_join_timestamp = t,
            ap_verification_status = ''verified'',
            ap_governance_weight = 0,
            ap_preferred_focus_areas = [],
            ap_contribution_history = [],
            ap_identity_proof = ''tok''\<rparr>],
      pending_registrations = [''alice'' \<mapsto> Invitation ''tok'' 0 ''invited''],
      effects = calls\<rparr>"

definition at_time :: "int \<Rightarrow> string \<Rightarrow> readings" where
  "at_time t token = \<lparr>clock = t, token_hex = token, token_urlsafe = ''''\<rparr>"

text \<open>
  The empty dictionary as a candidate, and \<open>bob\<close>, who scores 72 and whose
  \<^verbatim>\<open>last_active\<close> is the aware timestamp \<^verbatim>\<open>1970-01-01T00:00:00+00:00\<close>.
\<close>

definition empty_candidate :: candidate where
  "empty_candidate =
     \<lparr>username = None, karma = None, specializations = None, last_active = None,
      posts_per_month = None, followers = None, days_since_last_post = None,
      community_rating = None, recruitment_score = None\<rparr>"

definition bob :: candidate where
  "bob = alice_data\<lparr>username := Some ''bob'', last_active := Some (Aware 0)\<rparr>"

text \<open>
  A submission payload with the four required fields and no \<^verbatim>\<open>challenge_response\<close>,
  and a handler environment; its digest function is a stand-in of the right shape, since
  nothing below depends on which function it is.
\<close>

definition payload_without_response :: "(string \<times> pyval) list" where
  "payload_without_response =
     [(''moltbook_username'', PStr ''alice''),
      (''blockchain_address'', PStr ''0xAbC1''),
      (''specializations'', PList [PStr ''governance'']),
      (''verification_signature'', PStr ''sig'')]"

definition handler_env :: http_env where
  "handler_env =
     \<lparr>now_iso = ''2024-05-01T10:00:00'',
      remote_addr = ''127.0.0.1'',
      sha256_hexdigest = (\<lambda>text. rev text),
      py_str = (\<lambda>v. case v of PStr s \<Rightarrow> s | _ \<Rightarrow> ''?'')\<rparr>"

text \<open>
  \<open>carol\<close>, with the same score, whose \<^verbatim>\<open>last_active\<close> is a naive timestamp; at the
  clock reading 2592000 (30 days) it is 592000 seconds old, which is 6 whole days.
\<close>

definition carol :: candidate where
  "carol = alice_data\<lparr>username := Some ''carol'', last_active := Some (Naive 2000000)\<rparr>"

text \<open>The dictionary that the handlers build from that payload in that environment.\<close>

definition alice_submission :: submission where
  "alice_submission =
     \<lparr>sub_username = PStr ''alice'',
      sub_blockchain_address = PStr ''0xAbC1'',
      sub_specializations = PList [PStr ''governance''],
      sub_motivation = PStr '''',
      sub_email = PStr '''',
      sub_verification_signature = PStr ''sig'',
      sub_challenge_response = PStr '''',
      sub_timestamp = ''2024-05-01T10:00:00'',
      sub_ip_address = ''127.0.0.1''\<rparr>"

text \<open>A candidate whose karma is the integer \<open>10^400\<close>, with no other key.\<close>

definition huge :: candidate where
  "huge = empty_candidate\<lparr>karma := Some (PyInt (10 ^ 400))\<rparr>"

section \<open>Facts about the scenarios and the recruiter\<close>

lemma matches_alice:
  "matches [''governance'', ''research''] (specialization_categories default_config) = 2"
  by (simp add: matches_def default_config_def)

lemma approval_score_alice: "calculate_approval_score default_config alice_data = 220"
  by (simp add: calculate_approval_score_def alice_data_def get_or_def matches_alice py_le_def
      exact_def)
     (simp add: default_config_def)

lemma verify_invited:
  "pending_registrations st (get_or (reg_username reg) '''') = Some (Invitation c ts s) \<Longrightarrow>
   verify_registration_challenge st reg = Inr (get_or (reg_challenge_response reg) '''' = c)"
  by (simp add: verify_registration_challenge_def)

lemma invited_alice_eq:
  "invited_alice = fresh_recruiter\<lparr>pending_registrations := [''alice'' \<mapsto> Invitation ''tok'' 0 ''invited'']\<rparr>"
  by (simp add: invited_alice_def generate_registration_url_def fresh_recruiter_def Let_def)

lemma invited_alice_pending:
  "pending_registrations invited_alice = [''alice'' \<mapsto> Invitation ''tok'' 0 ''invited'']"
  by (simp add: invited_alice_eq)

lemma alice_fields:
  "get_or (reg_username (alice_submits r)) '''' = ''alice''"
  "get_or (reg_blockchain_address (alice_submits r)) '''' = ''0xAbC1''"
  "get_or (reg_verification_signature (alice_submits r)) '''' = ''sig''"
  by (simp_all add: alice_submits_def get_or_def)

lemma fst_create: "fst (create_registration_request rd st reg) = token_hex rd"
  by (simp add: create_registration_request_def Let_def)

lemma verify_alice:
  "verify_registration_challenge invited_alice (alice_submits r) = Inr (r = ''tok'')"
  by (simp add: verify_registration_challenge_def invited_alice_pending alice_submits_def
      get_or_def)

lemma verify_approved_alice:
  "verify_registration_challenge (approved_alice t calls) (alice_submits r) = Inr (r = ''tok'')"
  by (simp add: verify_registration_challenge_def approved_alice_def alice_submits_def get_or_def)

lemma ownership_alice:
  "verify_address_ownership (signed_at t) (at_time t token) ''alice'' ''0xAbC1'' ''sig'' = Inr True"
  by (simp add: verify_address_ownership_def recover_and_compare_def signed_at_def at_time_def
      lower_def lower_char_def)

lemma approve_pending:
  "pending_registrations st request_id = Some (Request request) \<Longrightarrow>
   approve_registration rd st request_id =
     Inr (st\<lparr>registered_agents := (registered_agents st)(rr_moltbook_username request \<mapsto>
               \<lparr>ap_moltbook_username = rr_moltbook_username request,
                ap_blockchain_address = rr_blockchain_address request,
                ap_specialization = rr_specialization request,
                ap_karma_score = 0,
                ap_join_timestamp = clock rd,
                ap_verification_status = ''verified'',
                ap_governance_weight = 0,
                ap_preferred_focus_areas = [],
                ap_contribution_history = [],
                ap_identity_proof = rr_verification_challenge request\<rparr>),
             effects := effects st @ onboarding_calls (rr_moltbook_username request),
             pending_registrations := (pending_registrations st)(request_id := None)\<rparr>)"
  by (simp add: approve_registration_def start_onboarding_def onboarding_calls_def Let_def)

lemma create_then_approve_invited:
  assumes "token \<noteq> ''alice''"
  shows "approve_registration (at_time t token)
           (snd (create_registration_request (at_time t token) invited_alice (alice_submits ''tok'')))
           token
         = Inr (approved_alice t (onboarding_calls ''alice''))"
  using assms
  by (simp add: approve_registration_def start_onboarding_def onboarding_calls_def Let_def
      create_registration_request_def approved_alice_def alice_submits_def at_time_def get_or_def
      invited_alice_eq fresh_recruiter_def fun_upd_twist)

lemma create_then_approve_alice:
  assumes "token \<noteq> ''alice''"
  shows "approve_registration (at_time t token)
           (snd (create_registration_request (at_time t token) (approved_alice t0 calls)
                   (alice_submits ''tok'')))
           token
         = Inr (approved_alice t (calls @ onboarding_calls ''alice''))"
  using assms
  by (simp add: approve_registration_def start_onboarding_def onboarding_calls_def Let_def
      create_registration_request_def approved_alice_def alice_submits_def at_time_def get_or_def
      fun_upd_twist)

lemma evaluate_created_alice:
  assumes "config st = default_config"
  shows "evaluate_registration_request (signed_at t) rd
           (snd (create_registration_request rd st (alice_submits r))) (token_hex rd)
         = approve_registration rd (snd (create_registration_request rd st (alice_submits r)))
             (token_hex rd)"
proof -
  have "auto_approve_threshold default_config \<le> calculate_approval_score default_config alice_data"
    by (simp add: approval_score_alice) (simp add: default_config_def)
  then show ?thesis
    using assms
    by (simp add: evaluate_registration_request_def create_registration_request_def Let_def
        alice_submits_def get_or_def signed_at_def)
qed

lemma process_invited_alice:
  assumes "token \<noteq> ''alice''"
  shows "process_registration_request (signed_at t) (at_time t token) invited_alice
           (alice_submits ''tok'')
         = Inr (approved_alice t (onboarding_calls ''alice''))"
proof -
  have cfg: "config invited_alice = default_config"
    by (simp add: invited_alice_eq fresh_recruiter_def)
  have tok: "token_hex (at_time t token) = token"
    by (simp add: at_time_def)
  have "process_registration_request (signed_at t) (at_time t token) invited_alice
          (alice_submits ''tok'')
        = evaluate_registration_request (signed_at t) (at_time t token)
            (snd (create_registration_request (at_time t token) invited_alice
                    (alice_submits ''tok''))) token"
    by (simp add: process_registration_request_def verify_alice Let_def alice_fields
        ownership_alice case_prod_beta fst_create tok)
  also have "\<dots> = approve_registration (at_time t token)
            (snd (create_registration_request (at_time t token) invited_alice
                    (alice_submits ''tok''))) token"
    using evaluate_created_alice [OF cfg, of t "at_time t token"] tok
    by simp
  finally show ?thesis
    using create_then_approve_invited [OF assms] by simp
qed

lemma process_approved_alice:
  assumes "token \<noteq> ''alice''"
  shows "process_registration_request (signed_at t) (at_time t token) (approved_alice t0 calls)
           (alice_submits ''tok'')
         = Inr (approved_alice t (calls @ onboarding_calls ''alice''))"
proof -
  have cfg: "config (approved_alice t0 calls) = default_config"
    by (simp add: approved_alice_def)
  have tok: "token_hex (at_time t token) = token"
    by (simp add: at_time_def)
  have "process_registration_request (signed_at t) (at_time t token) (approved_alice t0 calls)
          (alice_submits ''tok'')
        = evaluate_registration_request (signed_at t) (at_time t token)
            (snd (create_registration_request (at_time t token) (approved_alice t0 calls)
                    (alice_submits ''tok''))) token"
    by (simp add: process_registration_request_def verify_approved_alice Let_def alice_fields
        ownership_alice case_prod_beta fst_create tok)
  also have "\<dots> = approve_registration (at_time t token)
            (snd (create_registration_request (at_time t token) (approved_alice t0 calls)
                    (alice_submits ''tok''))) token"
    using evaluate_created_alice [OF cfg, of t "at_time t token"] tok
    by simp
  finally show ?thesis
    using create_then_approve_alice [OF assms] by simp
qed

lemma process_keeps_entry:
  assumes "process_registration_request co rd st reg = Inr st'"
      and "k \<noteq> token_hex rd"
    shows "pending_registrations st' k = pending_registrations st k"
  using assms
  by (auto simp: process_registration_request_def create_registration_request_def
      evaluate_registration_request_def approve_registration_def set_status_def
      start_onboarding_def Let_def
      split: sum.splits bool.splits option.splits pending_entry.splits if_splits prod.splits)

lemma process_returns:
  assumes "verify_registration_challenge st reg = Inr b"
  shows "\<exists>st'. process_registration_request co rd st reg = Inr st'"
  using assms
  by (auto simp: process_registration_request_def create_registration_request_def
      evaluate_registration_request_def approve_registration_def set_status_def
      start_onboarding_def Let_def verify_address_ownership_def
      split: sum.splits bool.splits option.splits pending_entry.splits if_splits prod.splits)

section \<open>Challenge verification\<close>

text \<open>
  C1. The claim: verification with the correct response succeeds, and a second call for
  the same identity with the same response fails, because success marks the challenge
  consumed. The first half holds. The second does not: \<^verbatim>\<open>verify_registration_challenge\<close>
  only reads \<^verbatim>\<open>pending_registrations\<close>, and nothing afterwards removes or marks the
  invitation. In the scenario the correct response verifies, the registration is
  processed through to approval, and the same response verifies again.
\<close>

theorem replay_accepted:
  "verify_registration_challenge invited_alice (alice_submits ''tok'') = Inr True
   \<and> process_registration_request (signed_at 1000) (at_time 1000 ''r1'') invited_alice
         (alice_submits ''tok'')
       = Inr (approved_alice 1000 (onboarding_calls ''alice''))
   \<and> verify_registration_challenge (approved_alice 1000 (onboarding_calls ''alice''))
         (alice_submits ''tok'') = Inr True"
  using process_invited_alice [of "''r1''" 1000]
  by (simp add: verify_alice verify_approved_alice)

text \<open>
  C1, as the code has it: for every identity with an issued challenge, verification with
  the correct response succeeds; it consumes nothing, so after the registration has been
  processed (the fresh request id being another key than the username) the invitation is
  still stored and the same response succeeds again.
\<close>

theorem challenge_not_consumed:
  assumes "pending_registrations st (get_or (reg_username reg) '''') = Some (Invitation c ts s)"
      and "get_or (reg_challenge_response reg) '''' = c"
      and "token_hex rd \<noteq> get_or (reg_username reg) ''''"
  shows "verify_registration_challenge st reg = Inr True
         \<and> (\<exists>st'. process_registration_request co rd st reg = Inr st'
                \<and> pending_registrations st' (get_or (reg_username reg) '''')
                    = Some (Invitation c ts s)
                \<and> verify_registration_challenge st' reg = Inr True)"
proof -
  have first: "verify_registration_challenge st reg = Inr True"
    using assms(1,2) by (simp add: verify_invited)
  then obtain st' where run: "process_registration_request co rd st reg = Inr st'"
    using process_returns by blast
  have kept: "pending_registrations st' (get_or (reg_username reg) '''')
              = Some (Invitation c ts s)"
    using process_keeps_entry [OF run] assms(1,3) by simp
  then have "verify_registration_challenge st' reg = Inr True"
    using assms(2) by (simp add: verify_invited)
  with first run kept show ?thesis by blast
qed

theorem challenge_not_consumed_witness:
  "pending_registrations invited_alice (get_or (reg_username (alice_submits ''tok'')) '''')
     = Some (Invitation ''tok'' 0 ''invited'')
   \<and> get_or (reg_challenge_response (alice_submits ''tok'')) '''' = ''tok''
   \<and> token_hex (at_time 1000 ''r1'') \<noteq> get_or (reg_username (alice_submits ''tok'')) ''''
   \<and> verify_registration_challenge invited_alice (alice_submits ''tok'') = Inr True
   \<and> (\<exists>st'. process_registration_request (signed_at 1000) (at_time 1000 ''r1'') invited_alice
                 (alice_submits ''tok'') = Inr st'
          \<and> pending_registrations st' (get_or (reg_username (alice_submits ''tok'')) '''')
              = Some (Invitation ''tok'' 0 ''invited'')
          \<and> verify_registration_challenge st' (alice_submits ''tok'') = Inr True)"
proof -
  have a: "pending_registrations invited_alice (get_or (reg_username (alice_submits ''tok'')) '''')
           = Some (Invitation ''tok'' 0 ''invited'')"
    by (simp add: invited_alice_pending alice_fields)
  have b: "get_or (reg_challenge_response (alice_submits ''tok'')) '''' = ''tok''"
    by (simp add: alice_submits_def get_or_def)
  have c: "token_hex (at_time 1000 ''r1'') \<noteq> get_or (reg_username (alice_submits ''tok'')) ''''"
    by (simp add: at_time_def alice_fields)
  show ?thesis
    using a b c challenge_not_consumed [OF a b c, of "signed_at 1000"] by blast
qed

text \<open>
  C2. The claim: a challenge older than the configured TTL fails verification even with
  the correct response. The code has no TTL: the configuration holds no such option, and
  the \<^verbatim>\<open>timestamp\<close> stored with the invitation is never read. In the scenario of the
  specification (challenge issued at time 0, response at time 4000, a TTL of 3600 were
  there one) the correct response verifies and the registration is approved.
\<close>

theorem expired_challenge_accepted:
  "pending_registrations invited_alice ''alice'' = Some (Invitation ''tok'' 0 ''invited'')
   \<and> clock (at_time 4000 ''r1'') - 0 > 3600
   \<and> verify_registration_challenge invited_alice (alice_submits ''tok'') = Inr True
   \<and> process_registration_request (signed_at 4000) (at_time 4000 ''r1'') invited_alice
         (alice_submits ''tok'')
       = Inr (approved_alice 4000 (onboarding_calls ''alice''))"
  using process_invited_alice [of "''r1''" 4000]
  by (simp add: verify_alice invited_alice_pending at_time_def)

text \<open>
  C2, as the code has it: verification does not depend on the age of the challenge. For
  an invitation issued at any time \<open>ts\<close> the result is true exactly when the response
  equals the stored token, and replacing the stored time by any other leaves the result
  as it is.
\<close>

theorem challenge_age_ignored:
  assumes "pending_registrations st (get_or (reg_username reg) '''') = Some (Invitation c ts s)"
  shows "verify_registration_challenge st reg = Inr (get_or (reg_challenge_response reg) '''' = c)
         \<and> verify_registration_challenge
              (st\<lparr>pending_registrations :=
                    (pending_registrations st)(get_or (reg_username reg) '''' \<mapsto> Invitation c ts' s)\<rparr>)
              reg
            = verify_registration_challenge st reg"
  using assms by (simp add: verify_registration_challenge_def)

theorem challenge_age_ignored_witness:
  "pending_registrations invited_alice (get_or (reg_username (alice_submits ''tok'')) '''')
     = Some (Invitation ''tok'' 0 ''invited'')
   \<and> verify_registration_challenge invited_alice (alice_submits ''tok'')
       = Inr (get_or (reg_challenge_response (alice_submits ''tok'')) '''' = ''tok'')
   \<and> verify_registration_challenge
        (invited_alice\<lparr>pending_registrations :=
           (pending_registrations invited_alice)
             (get_or (reg_username (alice_submits ''tok'')) '''' \<mapsto> Invitation ''tok'' 4000 ''invited'')\<rparr>)
        (alice_submits ''tok'')
      = verify_registration_challenge invited_alice (alice_submits ''tok'')"
proof -
  have a: "pending_registrations invited_alice (get_or (reg_username (alice_submits ''tok'')) '''')
           = Some (Invitation ''tok'' 0 ''invited'')"
    by (simp add: invited_alice_pending alice_fields)
  show ?thesis
    using a challenge_age_ignored [OF a, of 4000] by blast
qed

section \<open>A failed challenge\<close>

text \<open>
  C3. The claim: when challenge verification returns false, the registration's status
  becomes \<^verbatim>\<open>rejected\<close>, recorded as state. In the code
  \<^verbatim>\<open>process_registration_request\<close> logs a warning and returns; the
  \<^verbatim>\<open>RegistrationRequest\<close> that could carry a status is only created after both
  verifications. In the scenario a wrong response leaves the recruiter exactly as it was,
  with the invitation (status \<^verbatim>\<open>invited\<close>) as the only entry.
\<close>

theorem failed_challenge_not_recorded:
  "verify_registration_challenge invited_alice (alice_submits ''guess'') = Inr False
   \<and> process_registration_request (signed_at 1000) (at_time 1000 ''r1'') invited_alice
         (alice_submits ''guess'')
       = Inr invited_alice
   \<and> pending_registrations invited_alice = [''alice'' \<mapsto> Invitation ''tok'' 0 ''invited'']"
  by (simp add: process_registration_request_def verify_alice Let_def invited_alice_pending)

text \<open>
  C3, as the code has it: when challenge verification returns false, processing stops
  and the recruiter's state is unchanged; no request is created and no status recorded.
\<close>

theorem failed_challenge_leaves_state:
  assumes "verify_registration_challenge st reg = Inr False"
  shows "process_registration_request co rd st reg = Inr st"
  using assms by (simp add: process_registration_request_def Let_def)

theorem failed_challenge_leaves_state_witness:
  "verify_registration_challenge invited_alice (alice_submits ''guess'') = Inr False
   \<and> process_registration_request (signed_at 1000) (at_time 1000 ''r1'') invited_alice
         (alice_submits ''guess'')
       = Inr invited_alice"
proof -
  have a: "verify_registration_challenge invited_alice (alice_submits ''guess'') = Inr False"
    by (simp add: verify_alice)
  show ?thesis
    using a failed_challenge_leaves_state [OF a] by blast
qed

section \<open>Approval\<close>

text \<open>
  C7. The claim: approving an identity that is already approved is a no-op or a clean
  error and never grants twice. \<^verbatim>\<open>approve_registration\<close> looks up the request id, not the
  identity, and has no test for \<^verbatim>\<open>username in self.registered_agents\<close>. In the
  scenario \<open>alice\<close> has been approved once (one allocation); a second request of hers is
  created and approved, the profile is replaced and the allocation is made a second time.
  The same state is reached when her submission is simply processed again, since the
  challenge still verifies.
\<close>

theorem second_approval_grants_again:
  "approve_registration (at_time 1000 ''r1'')
     (snd (create_registration_request (at_time 1000 ''r1'') invited_alice (alice_submits ''tok'')))
     ''r1''
   = Inr (approved_alice 1000 (onboarding_calls ''alice''))
   \<and> approve_registration (at_time 2000 ''r2'')
       (snd (create_registration_request (at_time 2000 ''r2'')
               (approved_alice 1000 (onboarding_calls ''alice'')) (alice_submits ''tok'')))
       ''r2''
     = Inr (approved_alice 2000 (onboarding_calls ''alice'' @ onboarding_calls ''alice''))
   \<and> process_registration_request (signed_at 2000) (at_time 2000 ''r2'')
       (approved_alice 1000 (onboarding_calls ''alice'')) (alice_submits ''tok'')
     = Inr (approved_alice 2000 (onboarding_calls ''alice'' @ onboarding_calls ''alice''))
   \<and> count_list (effects (approved_alice 1000 (onboarding_calls ''alice'')))
         (Allocated_tokens ''alice'' 1000) = 1
   \<and> count_list (effects (approved_alice 2000 (onboarding_calls ''alice'' @ onboarding_calls ''alice'')))
         (Allocated_tokens ''alice'' 1000) = 2"
  using create_then_approve_invited [of "''r1''" 1000]
        create_then_approve_alice [of "''r2''" 2000 1000 "onboarding_calls ''alice''"]
        process_approved_alice [of "''r2''" 2000 1000 "onboarding_calls ''alice''"]
  by (simp add: approved_alice_def onboarding_calls_def)

text \<open>
  C7, as the code has it: approving a pending request succeeds, stores the one profile of
  its identity (\<^verbatim>\<open>registered_agents\<close> is keyed by username, so a profile already there
  is replaced, never duplicated), makes the onboarding calls with one more allocation of
  1000 tokens, whether or not the identity was approved before, and removes the request;
  approving the same request id again raises \<^verbatim>\<open>KeyError\<close> and changes nothing.
\<close>

theorem approve_twice:
  assumes "pending_registrations st request_id = Some (Request request)"
  shows "\<exists>st' profile.
           approve_registration rd st request_id = Inr st'
           \<and> registered_agents st' (rr_moltbook_username request) = Some profile
           \<and> ap_join_timestamp profile = clock rd
           \<and> effects st' =
               effects st @
                 [Saved_agent_database,
                  Sent_dm (rr_moltbook_username request) (welcome_message (rr_moltbook_username request)),
                  Registered_on_chain (rr_moltbook_username request),
                  Allocated_tokens (rr_moltbook_username request) 1000]
           \<and> count_list (effects st') (Allocated_tokens (rr_moltbook_username request) 1000)
               = count_list (effects st) (Allocated_tokens (rr_moltbook_username request) 1000) + 1
           \<and> pending_registrations st' request_id = None
           \<and> approve_registration rd' st' request_id = Inl KeyError"
  using approve_pending [OF assms, of rd]
  by (simp add: onboarding_calls_def approve_registration_def)

theorem approve_twice_witness:
  "pending_registrations
     (snd (create_registration_request (at_time 2000 ''r2'')
             (approved_alice 1000 (onboarding_calls ''alice'')) (alice_submits ''tok'')))
     ''r2''
   = Some (Request \<lparr>rr_request_id = ''r2'', rr_moltbook_username = ''alice'',
                    rr_blockchain_address = ''0xAbC1'',
                    rr_specialization = [''governance'', ''research''], rr_motivation = '''',
                    rr_timestamp = 2000, rr_verification_challenge = ''tok'',
                    rr_status = ''pending''\<rparr>)
   \<and> (\<exists>st' profile.
         approve_registration (at_time 2000 ''r2'')
           (snd (create_registration_request (at_time 2000 ''r2'')
                   (approved_alice 1000 (onboarding_calls ''alice'')) (alice_submits ''tok'')))
           ''r2'' = Inr st'
         \<and> registered_agents st' ''alice'' = Some profile
         \<and> ap_join_timestamp profile = 2000
         \<and> count_list (effects st') (Allocated_tokens ''alice'' 1000) = 2
         \<and> approve_registration (at_time 3000 ''r3'') st' ''r2'' = Inl KeyError)"
proof -
  let ?st = "snd (create_registration_request (at_time 2000 ''r2'')
                    (approved_alice 1000 (onboarding_calls ''alice'')) (alice_submits ''tok''))"
  let ?rq = "\<lparr>rr_request_id = ''r2'', rr_moltbook_username = ''alice'',
              rr_blockchain_address = ''0xAbC1'',
              rr_specialization = [''governance'', ''research''], rr_motivation = '''',
              rr_timestamp = 2000, rr_verification_challenge = ''tok'',
              rr_status = ''pending''\<rparr>"
  have a: "pending_registrations ?st ''r2'' = Some (Request ?rq)"
    by (simp add: create_registration_request_def Let_def at_time_def alice_submits_def get_or_def)
  have e: "count_list (effects ?st) (Allocated_tokens ''alice'' 1000) = 1"
    by (simp add: create_registration_request_def Let_def approved_alice_def onboarding_calls_def)
  have c: "clock (at_time 2000 ''r2'') = 2000"
    by (simp add: at_time_def)
  from approve_twice [OF a, of "at_time 2000 ''r2''" "at_time 3000 ''r3''"]
  obtain st' profile where
    "approve_registration (at_time 2000 ''r2'') ?st ''r2'' = Inr st'"
    "registered_agents st' ''alice'' = Some profile"
    "ap_join_timestamp profile = 2000"
    "count_list (effects st') (Allocated_tokens ''alice'' 1000) = 2"
    "approve_registration (at_time 3000 ''r3'') st' ''r2'' = Inl KeyError"
    using e c by auto
  with a show ?thesis by blast
qed

section \<open>Ownership verification\<close>

lemma lower_char_code:
  "lower_char c = (if ascii_upper c then char_of ((of_char c :: nat) + 32) else c)"
  by (cases c) (simp add: lower_char_def ascii_upper_def char_of_def bit_0)

lemma char_of_inj256: "m < 256 \<Longrightarrow> n < 256 \<Longrightarrow> char_of (m::nat) = char_of n \<longleftrightarrow> m = n"
  by (simp add: char_of_eq_iff take_bit_nat_eq_self)

lemma char_of_conv: "n < 256 \<Longrightarrow> char_of (n::nat) = c \<longleftrightarrow> (of_char c :: nat) = n"
  by auto

lemma lower_upper_upper:
  assumes "ascii_upper x" "ascii_upper y"
  shows "lower_char x = lower_char y \<longleftrightarrow> x = y"
proof -
  have "(of_char x :: nat) + 32 < 256" "(of_char y :: nat) + 32 < 256"
    using assms by (simp_all add: ascii_upper_def)
  then have "char_of ((of_char x :: nat) + 32) = char_of ((of_char y :: nat) + 32)
             \<longleftrightarrow> (of_char x :: nat) + 32 = of_char y + 32"
    by (rule char_of_inj256)
  then show ?thesis
    using assms by (simp add: lower_char_code)
qed

lemma lower_upper_other:
  assumes "ascii_upper x" "\<not> ascii_upper y"
  shows "lower_char x = lower_char y \<longleftrightarrow> (of_char y :: nat) = of_char x + 32"
proof -
  have "(of_char x :: nat) + 32 < 256"
    using assms by (simp add: ascii_upper_def)
  then have "char_of ((of_char x :: nat) + 32) = y \<longleftrightarrow> (of_char y :: nat) = of_char x + 32"
    by (rule char_of_conv)
  then show ?thesis
    using assms by (simp add: lower_char_code)
qed

lemma lower_char_eq_iff: "lower_char x = lower_char y \<longleftrightarrow> same_letter x y"
proof (cases "ascii_upper x")
  case ux: True
  show ?thesis
  proof (cases "ascii_upper y")
    case uy: True
    have "\<not> (of_char y :: nat) = of_char x + 32" "\<not> (of_char x :: nat) = of_char y + 32"
      using ux uy unfolding ascii_upper_def by linarith+
    then have "same_letter x y \<longleftrightarrow> x = y"
      unfolding same_letter_def by blast
    then show ?thesis
      using lower_upper_upper [OF ux uy] by blast
  next
    case ny: False
    have "x \<noteq> y"
      using ux ny by blast
    then have "same_letter x y \<longleftrightarrow> (of_char y :: nat) = of_char x + 32"
      unfolding same_letter_def using ux ny by blast
    then show ?thesis
      using lower_upper_other [OF ux ny] by blast
  qed
next
  case nx: False
  show ?thesis
  proof (cases "ascii_upper y")
    case uy: True
    have "x \<noteq> y"
      using nx uy by blast
    then have "same_letter x y \<longleftrightarrow> (of_char x :: nat) = of_char y + 32"
      unfolding same_letter_def using nx uy by blast
    moreover have "lower_char x = lower_char y \<longleftrightarrow> lower_char y = lower_char x"
      by (rule eq_commute)
    ultimately show ?thesis
      using lower_upper_other [OF uy nx] by blast
  next
    case ny: False
    have "same_letter x y \<longleftrightarrow> x = y"
      unfolding same_letter_def using nx ny by blast
    moreover have "lower_char x = x" "lower_char y = y"
      using nx ny by (simp_all add: lower_char_code)
    ultimately show ?thesis
      by simp
  qed
qed

text \<open>
  The source's \<^verbatim>\<open>a.lower() == b.lower()\<close> is the specification's case-insensitive
  equality.
\<close>

lemma lower_eq_iff: "lower a = lower b \<longleftrightarrow> equal_ignoring_case a b"
proof -
  have "lower a = lower b \<longleftrightarrow> list_all2 (=) (map lower_char a) (map lower_char b)"
    by (simp add: lower_def list.rel_eq)
  also have "\<dots> \<longleftrightarrow> list_all2 (\<lambda>x y. lower_char x = lower_char y) a b"
    by (simp add: list.rel_map)
  also have "\<dots> \<longleftrightarrow> list_all2 same_letter a b"
    by (simp add: lower_char_eq_iff)
  finally show ?thesis
    by (simp add: equal_ignoring_case_def)
qed

lemma verify_deployed:
  "verify_address_ownership (deployed co) rd user address signature = Inr False"
  by (simp add: verify_address_ownership_def recover_and_compare_def deployed_def
      eth_account_recover_message_def Let_def)

lemma verify_general:
  "verify_address_ownership co rd user address signature
     = Inr (case recover_message co (keccak co (ownership_message user (clock rd))) signature of
              Inl e \<Rightarrow> False
            | Inr recovered \<Rightarrow> equal_ignoring_case recovered address)"
  by (simp add: verify_address_ownership_def recover_and_compare_def Let_def lower_eq_iff
      split: sum.splits)

lemma ownership_other_address:
  "verify_address_ownership (signed_at t) (at_time t token) ''alice'' ''0xAbC2'' ''sig'' = Inr False"
  by (simp add: verify_address_ownership_def recover_and_compare_def signed_at_def at_time_def
      lower_def lower_char_def)



text \<open>
  C9. For every username, address and signature, \<^verbatim>\<open>verify_address_ownership\<close> returns a
  boolean and raises nothing. When recovery raises (a signature it cannot parse, or any
  other error) the result is false. When recovery succeeds the result is true exactly
  when the recovered address equals the claimed address case-insensitively, in the
  specification's sense of \<open>equal_ignoring_case\<close>. As the source calls the library,
  recovery raises for every input, so there the result is false throughout.
\<close>

theorem ownership_fails_closed:
  "(\<exists>b. verify_address_ownership co rd user address signature = Inr b)
   \<and> (\<forall>e. recover_message co (keccak co (ownership_message user (clock rd))) signature = Inl e \<longrightarrow>
          verify_address_ownership co rd user address signature = Inr False)
   \<and> (\<forall>recovered.
          recover_message co (keccak co (ownership_message user (clock rd))) signature = Inr recovered \<longrightarrow>
          verify_address_ownership co rd user address signature
            = Inr (equal_ignoring_case recovered address))
   \<and> verify_address_ownership (deployed co) rd user address signature = Inr False"
proof (intro conjI allI impI)
  show "\<exists>b. verify_address_ownership co rd user address signature = Inr b"
    by (simp add: verify_general)
next
  fix e
  assume "recover_message co (keccak co (ownership_message user (clock rd))) signature = Inl e"
  then show "verify_address_ownership co rd user address signature = Inr False"
    by (simp add: verify_general)
next
  fix recovered
  assume "recover_message co (keccak co (ownership_message user (clock rd))) signature
            = Inr recovered"
  then show "verify_address_ownership co rd user address signature
               = Inr (equal_ignoring_case recovered address)"
    by (simp add: verify_general)
next
  show "verify_address_ownership (deployed co) rd user address signature = Inr False"
    by (rule verify_deployed)
qed

theorem ownership_fails_closed_witness:
  "recover_message (signed_at 1000) (keccak (signed_at 1000) (ownership_message ''alice'' 1000)) ''sig''
     = Inr ''0xabc1''
   \<and> equal_ignoring_case ''0xabc1'' ''0xAbC1''
   \<and> verify_address_ownership (signed_at 1000) (at_time 1000 ''r1'') ''alice'' ''0xAbC1'' ''sig''
       = Inr True
   \<and> \<not> equal_ignoring_case ''0xabc1'' ''0xAbC2''
   \<and> verify_address_ownership (signed_at 1000) (at_time 1000 ''r1'') ''alice'' ''0xAbC2'' ''sig''
       = Inr False
   \<and> recover_message (signed_at 1000) (keccak (signed_at 1000) (ownership_message ''alice'' 1000)) ''zz''
       = Inl BadSignature
   \<and> verify_address_ownership (signed_at 1000) (at_time 1000 ''r1'') ''alice'' ''0xAbC1'' ''zz''
       = Inr False
   \<and> verify_address_ownership (deployed (signed_at 1000)) (at_time 1000 ''r1'') ''alice'' ''0xAbC1'' ''sig''
       = Inr False"
proof -
  have c: "clock (at_time 1000 ''r1'') = 1000"
    by (simp add: at_time_def)
  have r: "recover_message (signed_at 1000)
             (keccak (signed_at 1000) (ownership_message ''alice'' 1000)) ''sig'' = Inr ''0xabc1''"
    by (simp add: signed_at_def)
  have b: "recover_message (signed_at 1000)
             (keccak (signed_at 1000) (ownership_message ''alice'' 1000)) ''zz'' = Inl BadSignature"
    by (simp add: signed_at_def)
  have same: "equal_ignoring_case ''0xabc1'' ''0xAbC1''"
    by (simp add: lower_eq_iff [symmetric] lower_def lower_char_def)
  have other: "\<not> equal_ignoring_case ''0xabc1'' ''0xAbC2''"
    by (simp add: lower_eq_iff [symmetric] lower_def lower_char_def)
  note match = ownership_fails_closed [of "signed_at 1000" "at_time 1000 ''r1''" "''alice''"
      "''0xAbC1''" "''sig''"]
  note differ = ownership_fails_closed [of "signed_at 1000" "at_time 1000 ''r1''" "''alice''"
      "''0xAbC2''" "''sig''"]
  note malformed = ownership_fails_closed [of "signed_at 1000" "at_time 1000 ''r1''" "''alice''"
      "''0xAbC1''" "''zz''"]
  have t: "verify_address_ownership (signed_at 1000) (at_time 1000 ''r1'') ''alice'' ''0xAbC1'' ''sig''
           = Inr True"
    using match r same c by simp
  have f: "verify_address_ownership (signed_at 1000) (at_time 1000 ''r1'') ''alice'' ''0xAbC2'' ''sig''
           = Inr False"
    using differ r other c by simp
  have m: "verify_address_ownership (signed_at 1000) (at_time 1000 ''r1'') ''alice'' ''0xAbC1'' ''zz''
           = Inr False"
    using malformed b c by simp
  have d: "verify_address_ownership (deployed (signed_at 1000)) (at_time 1000 ''r1'') ''alice''
             ''0xAbC1'' ''sig'' = Inr False"
    using match by blast
  show ?thesis
    using r same t other f b m d by blast
qed

section \<open>Recruitment score\<close>

lemma limit_large: "1000 < double_limit"
  by (simp add: double_limit_def)

lemma score_alice:
  "calculate_candidate_score default_config alice_data = Inr (PyFloat (Finite 72))"
  using limit_large
  by (simp add: calculate_candidate_score_def alice_data_def get_or_def matches_alice and_then_def
      div10_def py_min_def py_lt_def exact_def py_add_def float_of_int_def to_float_def)

lemma huge_division: "div10 (get_or (karma huge) (PyInt 0)) = Inl OverflowError"
  by (simp add: huge_def get_or_def div10_def double_limit_def)

lemma score_huge: "calculate_candidate_score cfg huge = Inl OverflowError"
  by (simp add: calculate_candidate_score_def huge_division and_then_def)

text \<open>
  C8. The claim: for every candidate record the score is monotonic non-decreasing in
  karma, matching tags, posts per month and followers, and lies within [0,100]. The code
  caps each term with \<^verbatim>\<open>min\<close> (its comments give the maxima 40, 30, 20 and 10), but it
  divides before it caps: \<^verbatim>\<open>karma / 10\<close> is a true division, which raises
  \<^verbatim>\<open>OverflowError\<close> on an integer too large for a double. The candidate whose karma is
  \<open>10^400\<close> gets no score where the claim promises 40 for karma, a larger karma than
  \<open>alice\<close>'s 500 does not score at least her 72, and \<^verbatim>\<open>filter_candidates\<close>, which has no
  \<^verbatim>\<open>try\<close> around the call, loses the whole batch with it.
\<close>

theorem huge_karma_overflows:
  "karma huge = Some (PyInt (10 ^ 400))
   \<and> calculate_candidate_score default_config huge = Inl OverflowError
   \<and> calculate_candidate_score default_config alice_data = Inr (PyFloat (Finite 72))
   \<and> filter_candidates fresh_recruiter (at_time 0 '''') [alice_data, huge] = Inl OverflowError"
proof -
  have k: "karma huge = Some (PyInt (10 ^ 400))"
    by (simp add: huge_def)
  have a: "registered_agents fresh_recruiter (get_or (username alice_data) '''') = None"
          "\<not> py_lt (get_or (karma alice_data) (PyInt 0))
                 (PyFloat (Finite (min_karma_requirement (config fresh_recruiter))))"
          "\<not> stale 0 (get_or (last_active alice_data) Unparseable)"
    by (simp_all add: fresh_recruiter_def alice_data_def get_or_def default_config_def stale_def
        py_lt_def exact_def)
  have h: "registered_agents fresh_recruiter (get_or (username huge) '''') = None"
          "\<not> py_lt (get_or (karma huge) (PyInt 0))
                 (PyFloat (Finite (min_karma_requirement (config fresh_recruiter))))"
          "\<not> stale 0 (get_or (last_active huge) Unparseable)"
    by (simp_all add: fresh_recruiter_def huge_def empty_candidate_def get_or_def
        default_config_def stale_def py_lt_def exact_def)
  have cfg: "config fresh_recruiter = default_config"
    by (simp add: fresh_recruiter_def)
  have "qualify fresh_recruiter 0 [alice_data, huge] = Inl OverflowError"
    using a h by (simp add: cfg score_alice score_huge and_then_def)
  then have f: "filter_candidates fresh_recruiter (at_time 0 '''') [alice_data, huge]
                = Inl OverflowError"
    by (simp add: filter_candidates_def at_time_def and_then_def)
  show ?thesis
    using k f by (simp add: score_alice score_huge)
qed

text \<open>
  On the records of the data model whose integers fit a double the score is what the
  claim says: it is the capped sum, which lies within [0,100] and is monotonic
  non-decreasing in each of karma, matching tags, posts per month and followers.
\<close>

lemma score_on_data_model:
  assumes "get_or (karma c) (PyInt 0) = PyInt k" "0 \<le> k" "of_int k / 10 < double_limit"
      and "get_or (posts_per_month c) (PyInt 0) = PyInt p" "0 \<le> p"
      and "get_or (followers c) (PyInt 0) = PyInt f" "0 \<le> f" "of_int f / 10 < double_limit"
  shows "\<exists>s. calculate_candidate_score cfg c = Inr s
           \<and> exact s = Finite (min (of_int k / 10) 40
                 + min (of_nat (matches (get_or (specializations c) []) (specialization_categories cfg)) * 6) 30
                 + min (of_int p) 20
                 + min (of_int f / 10) 10)"
proof -
  define m where "m = int (matches (get_or (specializations c) []) (specialization_categories cfg))"
  have m0: "0 \<le> m" by (simp add: m_def)
  have mm: "(of_nat (matches (get_or (specializations c) []) (specialization_categories cfg)) :: rat)
            = of_int m" by (simp add: m_def)
  have k10: "\<not> double_limit \<le> \<bar>of_int k / 10\<bar>" "\<not> double_limit \<le> \<bar>of_int f / 10\<bar>"
    using assms by simp_all
  show ?thesis
    using assms(2,5,7) m0 k10 limit_large
    unfolding calculate_candidate_score_def assms(1,4,6) mm m_def [symmetric]
    by (auto simp: and_then_def div10_def py_min_def py_lt_def exact_def py_add_def
        float_of_int_def to_float_def min_def)
qed

lemma capped_sum_bounds:
  assumes "(0::rat) \<le> a" "0 \<le> b" "0 \<le> c" "0 \<le> d"
  shows "0 \<le> min a 40 + min b 30 + min c 20 + min d 10"
    and "min a 40 + min b 30 + min c 20 + min d 10 \<le> 100"
  using assms by (simp_all add: min_def)

lemma capped_sum_mono:
  assumes "(a::rat) \<le> a'" "b \<le> b'" "c \<le> c'" "d \<le> d'"
  shows "min a 40 + min b 30 + min c 20 + min d 10 \<le> min a' 40 + min b' 30 + min c' 20 + min d' 10"
  using assms by (simp add: min_def)

lemma score_bounds_on_data_model:
  assumes "get_or (karma c) (PyInt 0) = PyInt k" "0 \<le> k" "of_int k / 10 < double_limit"
      and "get_or (posts_per_month c) (PyInt 0) = PyInt p" "0 \<le> p"
      and "get_or (followers c) (PyInt 0) = PyInt f" "0 \<le> f" "of_int f / 10 < double_limit"
  shows "\<exists>s v. calculate_candidate_score cfg c = Inr s \<and> exact s = Finite v \<and> 0 \<le> v \<and> v \<le> 100"
proof -
  from score_on_data_model [OF assms, of cfg] obtain s where
    s: "calculate_candidate_score cfg c = Inr s"
       "exact s = Finite (min (of_int k / 10) 40
          + min (of_nat (matches (get_or (specializations c) []) (specialization_categories cfg)) * 6) 30
          + min (of_int p) 20 + min (of_int f / 10) 10)"
    by blast
  have nn: "(0::rat) \<le> of_int k / 10"
           "(0::rat) \<le> of_nat (matches (get_or (specializations c) []) (specialization_categories cfg)) * 6"
           "(0::rat) \<le> of_int p" "(0::rat) \<le> of_int f / 10"
    using assms(2,5,7) by simp_all
  show ?thesis
    using s capped_sum_bounds [OF nn] by blast
qed

lemma score_monotone_on_data_model:
  assumes "get_or (karma c) (PyInt 0) = PyInt k" "0 \<le> k" "of_int k / 10 < double_limit"
      and "get_or (posts_per_month c) (PyInt 0) = PyInt p" "0 \<le> p"
      and "get_or (followers c) (PyInt 0) = PyInt f" "0 \<le> f" "of_int f / 10 < double_limit"
      and "get_or (karma c') (PyInt 0) = PyInt k'" "k \<le> k'" "of_int k' / 10 < double_limit"
      and "get_or (posts_per_month c') (PyInt 0) = PyInt p'" "p \<le> p'"
      and "get_or (followers c') (PyInt 0) = PyInt f'" "f \<le> f'" "of_int f' / 10 < double_limit"
      and "matches (get_or (specializations c) []) (specialization_categories cfg)
             \<le> matches (get_or (specializations c') []) (specialization_categories cfg)"
  shows "\<exists>s v s' v'. calculate_candidate_score cfg c = Inr s \<and> exact s = Finite v
           \<and> calculate_candidate_score cfg c' = Inr s' \<and> exact s' = Finite v' \<and> v \<le> v'"
proof -
  have pos: "0 \<le> k'" "0 \<le> p'" "0 \<le> f'"
    using assms(2,5,7,10,13,15) by linarith+
  from score_on_data_model [OF assms(1-8), of cfg] obtain s where
    s: "calculate_candidate_score cfg c = Inr s"
       "exact s = Finite (min (of_int k / 10) 40
          + min (of_nat (matches (get_or (specializations c) []) (specialization_categories cfg)) * 6) 30
          + min (of_int p) 20 + min (of_int f / 10) 10)"
    by blast
  from score_on_data_model [OF assms(9) pos(1) assms(11) assms(12) pos(2) assms(14) pos(3) assms(16),
      of cfg] obtain s' where
    s': "calculate_candidate_score cfg c' = Inr s'"
        "exact s' = Finite (min (of_int k' / 10) 40
          + min (of_nat (matches (get_or (specializations c') []) (specialization_categories cfg)) * 6) 30
          + min (of_int p') 20 + min (of_int f' / 10) 10)"
    by blast
  have le: "(of_int k :: rat) / 10 \<le> of_int k' / 10"
           "(of_nat (matches (get_or (specializations c) []) (specialization_categories cfg)) :: rat) * 6
              \<le> of_nat (matches (get_or (specializations c') []) (specialization_categories cfg)) * 6"
           "(of_int p :: rat) \<le> of_int p'" "(of_int f :: rat) / 10 \<le> of_int f' / 10"
    using assms(10,13,15,17) by simp_all
  show ?thesis
    using s s' capped_sum_mono [OF le] by blast
qed

section \<open>Candidate filter\<close>

lemma stale_iff: "stale now la \<longleftrightarrow> (\<exists>t. la = Naive t \<and> 7 < (now - t) div 86400)"
  by (cases la) (simp_all add: stale_def)

lemma score_bob: "calculate_candidate_score default_config bob = Inr (PyFloat (Finite 72))"
  using limit_large
  by (simp add: calculate_candidate_score_def bob_def alice_data_def get_or_def matches_alice
      and_then_def div10_def py_min_def py_lt_def exact_def py_add_def float_of_int_def
      to_float_def)

lemma score_ignores_last_active:
  "calculate_candidate_score cfg (c\<lparr>last_active := la\<rparr>) = calculate_candidate_score cfg c"
  by (simp add: calculate_candidate_score_def)

lemma filter_single:
  assumes "registered_agents st (get_or (username c) '''') = None"
      and "\<not> py_lt (get_or (karma c) (PyInt 0)) (PyFloat (Finite (min_karma_requirement (config st))))"
      and "calculate_candidate_score (config st) c = Inr score"
  shows "filter_candidates st rd [c] =
           Inr (if \<not> stale (clock rd) (get_or (last_active c) Unparseable) \<and> py_lt (PyInt 70) score
                then [c\<lparr>recruitment_score := Some score\<rparr>] else [])"
  using assms by (simp add: filter_candidates_def and_then_def)

text \<open>
  C10. The claim: the filter excludes every candidate whose karma is below the minimum and
  every candidate whose parseable \<^verbatim>\<open>last_active\<close> is more than 7 days old, and keeps one
  whose \<^verbatim>\<open>last_active\<close> does not parse. The source says so itself (\<^verbatim>\<open>Check if recently
  active (last 7 days)\<close>), but its test subtracts the parsed timestamp from the naive
  \<^verbatim>\<open>datetime.now()\<close> inside a bare \<^verbatim>\<open>except\<close>: a timestamp that carries a UTC offset
  parses, the subtraction raises \<^verbatim>\<open>TypeError\<close>, and the \<^verbatim>\<open>except\<close> meant for the parse
  error keeps the candidate. \<open>bob\<close>, last active 30 days before the call, is returned;
  with the same instant written without an offset he is excluded, and \<open>carol\<close>, 6 whole
  days old, is kept.
\<close>

theorem aware_timestamp_not_excluded:
  "last_active bob = Some (Aware 0)
   \<and> (clock (at_time 2592000 '''') - 0) div 86400 = 30
   \<and> filter_candidates fresh_recruiter (at_time 2592000 '''') [bob]
       = Inr [bob\<lparr>recruitment_score := Some (PyFloat (Finite 72))\<rparr>]
   \<and> filter_candidates fresh_recruiter (at_time 2592000 '''') [bob\<lparr>last_active := Some (Naive 0)\<rparr>]
       = Inr []
   \<and> filter_candidates fresh_recruiter (at_time 2592000 '''') [carol]
       = Inr [carol\<lparr>recruitment_score := Some (PyFloat (Finite 72))\<rparr>]"
proof -
  have cfg: "config fresh_recruiter = default_config"
    by (simp add: fresh_recruiter_def)
  have b: "registered_agents fresh_recruiter (get_or (username bob) '''') = None"
          "\<not> py_lt (get_or (karma bob) (PyInt 0))
                 (PyFloat (Finite (min_karma_requirement (config fresh_recruiter))))"
    by (simp_all add: fresh_recruiter_def bob_def alice_data_def get_or_def default_config_def
        py_lt_def exact_def)
  have c: "registered_agents fresh_recruiter (get_or (username carol) '''') = None"
          "\<not> py_lt (get_or (karma carol) (PyInt 0))
                 (PyFloat (Finite (min_karma_requirement (config fresh_recruiter))))"
    by (simp_all add: fresh_recruiter_def carol_def alice_data_def get_or_def default_config_def
        py_lt_def exact_def)
  have sc: "calculate_candidate_score default_config carol = Inr (PyFloat (Finite 72))"
    using score_alice by (simp add: carol_def calculate_candidate_score_def)
  have gt: "py_lt (PyInt 70) (PyFloat (Finite 72))"
    by (simp add: py_lt_def exact_def)
  have one: "filter_candidates fresh_recruiter (at_time 2592000 '''') [bob]
             = Inr [bob\<lparr>recruitment_score := Some (PyFloat (Finite 72))\<rparr>]"
    using filter_single [OF b, of "PyFloat (Finite 72)" "at_time 2592000 ''''"] gt
    by (simp add: cfg score_bob) (simp add: bob_def get_or_def stale_def)
  have two: "filter_candidates fresh_recruiter (at_time 2592000 '''')
               [bob\<lparr>last_active := Some (Naive 0)\<rparr>] = Inr []"
    using filter_single [of fresh_recruiter "bob\<lparr>last_active := Some (Naive 0)\<rparr>"
        "PyFloat (Finite 72)" "at_time 2592000 ''''"] b
    by (simp add: cfg score_bob score_ignores_last_active)
       (simp add: get_or_def stale_def at_time_def)
  have three: "filter_candidates fresh_recruiter (at_time 2592000 '''') [carol]
               = Inr [carol\<lparr>recruitment_score := Some (PyFloat (Finite 72))\<rparr>]"
    using filter_single [OF c, of "PyFloat (Finite 72)" "at_time 2592000 ''''"] gt
    by (simp add: cfg sc) (simp add: carol_def get_or_def stale_def at_time_def)
  show ?thesis
    using one two three by (simp add: bob_def at_time_def)
qed

section \<open>Submission handlers\<close>

lemma truthy_present:
  "truthy (dict_get kvs k PNone) \<Longrightarrow> dict_item kvs k = Inr (dict_get kvs k PNone)"
  by (cases "map_of kvs k") (simp_all add: dict_get_def dict_item_def)

lemma build_submission_present:
  assumes "\<forall>field\<in>set required_fields. truthy (dict_get kvs field PNone)"
  shows "build_submission env kvs =
           Inr \<lparr>sub_username = dict_get kvs ''moltbook_username'' PNone,
                sub_blockchain_address = dict_get kvs ''blockchain_address'' PNone,
                sub_specializations = dict_get kvs ''specializations'' PNone,
                sub_motivation = dict_get kvs ''motivation'' (PStr ''''),
                sub_email = dict_get kvs ''email'' (PStr ''''),
                sub_verification_signature = dict_get kvs ''verification_signature'' PNone,
                sub_challenge_response = dict_get kvs ''challenge_response'' (PStr ''''),
                sub_timestamp = now_iso env,
                sub_ip_address = remote_addr env\<rparr>"
proof -
  have "truthy (dict_get kvs ''moltbook_username'' PNone)"
       "truthy (dict_get kvs ''blockchain_address'' PNone)"
       "truthy (dict_get kvs ''specializations'' PNone)"
       "truthy (dict_get kvs ''verification_signature'' PNone)"
    using assms by (simp_all add: required_fields_def)
  then show ?thesis
    by (simp add: build_submission_def truthy_present)
qed

lemma find_missing_none:
  "(\<forall>field\<in>set required_fields. truthy (dict_get kvs field PNone)) \<Longrightarrow>
   find (\<lambda>field. \<not> truthy (dict_get kvs field PNone)) required_fields = None"
  by (simp add: find_None_iff)

lemma find_missing_some:
  assumes "f \<in> set required_fields" and "\<not> truthy (dict_get kvs f PNone)"
  shows "\<exists>g. find (\<lambda>field. \<not> truthy (dict_get kvs field PNone)) required_fields = Some g
             \<and> g \<in> set required_fields \<and> \<not> truthy (dict_get kvs g PNone)"
proof (cases "find (\<lambda>field. \<not> truthy (dict_get kvs field PNone)) required_fields")
  case None
  then show ?thesis
    using assms by (auto simp: find_None_iff)
next
  case (Some g)
  then have "g \<in> set required_fields \<and> \<not> truthy (dict_get kvs g PNone)"
    by (auto simp: find_Some_iff)
  with Some show ?thesis by blast
qed

lemma register_agent_accepts:
  assumes "\<forall>field\<in>set required_fields. truthy (dict_get kvs field PNone)"
      and "build_submission env kvs = Inr sub"
  shows "register_agent env saved (PDict kvs) =
           (Json 200 [(''success'', PBool True),
                      (''message'', PStr ''Registration submitted successfully''),
                      (''registration_id'', PStr (generate_registration_id env sub))],
            saved @ [sub])"
    and "do_POST env (Inr (PDict kvs)) =
           Json 200 [(''success'', PBool True),
                     (''message'', PStr ''Registration submitted successfully''),
                     (''registration_id'', PStr (generate_registration_id env sub)),
                     (''status'', PStr ''pending_verification'')]"
  using find_missing_none [OF assms(1)] assms(2)
  by (simp_all add: register_agent_def register_agent_try_def do_POST_def do_POST_try_def)

lemma register_agent_rejects:
  assumes "find (\<lambda>field. \<not> truthy (dict_get kvs field PNone)) required_fields = Some g"
  shows "register_agent env saved (PDict kvs) =
           (Json 400 [(''success'', PBool False),
                      (''error'', PStr (''Missing required field: '' @ g))], saved)"
    and "do_POST env (Inr (PDict kvs)) = Error_page 400 (''Missing required field: '' @ g)"
  using assms
  by (simp_all add: register_agent_def register_agent_try_def do_POST_def do_POST_try_def)

lemma payload_all_present:
  "\<forall>field\<in>set required_fields. truthy (dict_get payload_without_response field PNone)"
  by (simp add: required_fields_def payload_without_response_def dict_get_def)

lemma payload_submission:
  "build_submission handler_env payload_without_response = Inr alice_submission"
  by (simp add: build_submission_present [OF payload_all_present] alice_submission_def)
     (simp add: payload_without_response_def dict_get_def handler_env_def)

text \<open>
  C4. The claim: a payload missing any of the five fields, in particular one missing only
  \<^verbatim>\<open>challenge_response\<close>, gets a validation failure naming the field, and nothing is
  stored. Both handlers list four required fields; \<^verbatim>\<open>challenge_response\<close> is read with
  \<^verbatim>\<open>data.get('challenge_response', '')\<close>. The payload without it is accepted by both,
  and the Flask handler stores it with an empty response.
\<close>

theorem challenge_response_not_required:
  "map_of payload_without_response ''challenge_response'' = None
   \<and> register_agent handler_env [] (PDict payload_without_response)
       = (Json 200 [(''success'', PBool True),
                    (''message'', PStr ''Registration submitted successfully''),
                    (''registration_id'', PStr (generate_registration_id handler_env alice_submission))],
          [alice_submission])
   \<and> sub_challenge_response alice_submission = PStr ''''
   \<and> do_POST handler_env (Inr (PDict payload_without_response))
       = Json 200 [(''success'', PBool True),
                   (''message'', PStr ''Registration submitted successfully''),
                   (''registration_id'', PStr (generate_registration_id handler_env alice_submission)),
                   (''status'', PStr ''pending_verification'')]"
  using register_agent_accepts [OF payload_all_present payload_submission]
  by (simp add: payload_without_response_def alice_submission_def)

lemma find_first_missing:
  "find (\<lambda>field. \<not> truthy (dict_get kvs field PNone)) required_fields =
     (if \<not> truthy (dict_get kvs ''moltbook_username'' PNone) then Some ''moltbook_username''
      else if \<not> truthy (dict_get kvs ''blockchain_address'' PNone) then Some ''blockchain_address''
      else if \<not> truthy (dict_get kvs ''specializations'' PNone) then Some ''specializations''
      else if \<not> truthy (dict_get kvs ''verification_signature'' PNone)
           then Some ''verification_signature''
      else None)"
  by (simp add: required_fields_def)

text \<open>
  C4, as the code has it: for a payload that is a JSON object, when one of the four
  fields \<^verbatim>\<open>moltbook_username\<close>, \<^verbatim>\<open>blockchain_address\<close>, \<^verbatim>\<open>specializations\<close>,
  \<^verbatim>\<open>verification_signature\<close> is absent or empty (any value Python counts as false), both
  handlers answer with status 400 and a message naming the first such field in that
  order, and the Flask handler stores nothing. When all four are present the submission
  is accepted and stored, with \<^verbatim>\<open>challenge_response\<close> defaulting to the empty string.
\<close>

theorem missing_required_field_rejected:
  "(\<not> truthy (dict_get kvs ''moltbook_username'' PNone) \<longrightarrow>
      register_agent env saved (PDict kvs)
        = (Json 400 [(''success'', PBool False),
                     (''error'', PStr ''Missing required field: moltbook_username'')], saved)
      \<and> do_POST env (Inr (PDict kvs))
          = Error_page 400 ''Missing required field: moltbook_username'')
   \<and> (truthy (dict_get kvs ''moltbook_username'' PNone)
       \<and> \<not> truthy (dict_get kvs ''blockchain_address'' PNone) \<longrightarrow>
      register_agent env saved (PDict kvs)
        = (Json 400 [(''success'', PBool False),
                     (''error'', PStr ''Missing required field: blockchain_address'')], saved)
      \<and> do_POST env (Inr (PDict kvs))
          = Error_page 400 ''Missing required field: blockchain_address'')
   \<and> (truthy (dict_get kvs ''moltbook_username'' PNone)
       \<and> truthy (dict_get kvs ''blockchain_address'' PNone)
       \<and> \<not> truthy (dict_get kvs ''specializations'' PNone) \<longrightarrow>
      register_agent env saved (PDict kvs)
        = (Json 400 [(''success'', PBool False),
                     (''error'', PStr ''Missing required field: specializations'')], saved)
      \<and> do_POST env (Inr (PDict kvs))
          = Error_page 400 ''Missing required field: specializations'')
   \<and> (truthy (dict_get kvs ''moltbook_username'' PNone)
       \<and> truthy (dict_get kvs ''blockchain_address'' PNone)
       \<and> truthy (dict_get kvs ''specializations'' PNone)
       \<and> \<not> truthy (dict_get kvs ''verification_signature'' PNone) \<longrightarrow>
      register_agent env saved (PDict kvs)
        = (Json 400 [(''success'', PBool False),
                     (''error'', PStr ''Missing required field: verification_signature'')], saved)
      \<and> do_POST env (Inr (PDict kvs))
          = Error_page 400 ''Missing required field: verification_signature'')
   \<and> (truthy (dict_get kvs ''moltbook_username'' PNone)
       \<and> truthy (dict_get kvs ''blockchain_address'' PNone)
       \<and> truthy (dict_get kvs ''specializations'' PNone)
       \<and> truthy (dict_get kvs ''verification_signature'' PNone) \<longrightarrow>
      (\<exists>sub. sub = \<lparr>sub_username = dict_get kvs ''moltbook_username'' PNone,
                     sub_blockchain_address = dict_get kvs ''blockchain_address'' PNone,
                     sub_specializations = dict_get kvs ''specializations'' PNone,
                     sub_motivation = dict_get kvs ''motivation'' (PStr ''''),
                     sub_email = dict_get kvs ''email'' (PStr ''''),
                     sub_verification_signature = dict_get kvs ''verification_signature'' PNone,
                     sub_challenge_response = dict_get kvs ''challenge_response'' (PStr ''''),
                     sub_timestamp = now_iso env,
                     sub_ip_address = remote_addr env\<rparr>
            \<and> register_agent env saved (PDict kvs)
                = (Json 200 [(''success'', PBool True),
                             (''message'', PStr ''Registration submitted successfully''),
                             (''registration_id'', PStr (generate_registration_id env sub))],
                   saved @ [sub])
            \<and> do_POST env (Inr (PDict kvs))
                = Json 200 [(''success'', PBool True),
                            (''message'', PStr ''Registration submitted successfully''),
                            (''registration_id'', PStr (generate_registration_id env sub)),
                            (''status'', PStr ''pending_verification'')]))"
proof (intro conjI impI)
  assume "truthy (dict_get kvs ''moltbook_username'' PNone)
          \<and> truthy (dict_get kvs ''blockchain_address'' PNone)
          \<and> truthy (dict_get kvs ''specializations'' PNone)
          \<and> truthy (dict_get kvs ''verification_signature'' PNone)"
  then have all: "\<forall>field\<in>set required_fields. truthy (dict_get kvs field PNone)"
    by (simp add: required_fields_def)
  show "\<exists>sub. sub = \<lparr>sub_username = dict_get kvs ''moltbook_username'' PNone,
                     sub_blockchain_address = dict_get kvs ''blockchain_address'' PNone,
                     sub_specializations = dict_get kvs ''specializations'' PNone,
                     sub_motivation = dict_get kvs ''motivation'' (PStr ''''),
                     sub_email = dict_get kvs ''email'' (PStr ''''),
                     sub_verification_signature = dict_get kvs ''verification_signature'' PNone,
                     sub_challenge_response = dict_get kvs ''challenge_response'' (PStr ''''),
                     sub_timestamp = now_iso env,
                     sub_ip_address = remote_addr env\<rparr>
            \<and> register_agent env saved (PDict kvs)
                = (Json 200 [(''success'', PBool True),
                             (''message'', PStr ''Registration submitted successfully''),
                             (''registration_id'', PStr (generate_registration_id env sub))],
                   saved @ [sub])
            \<and> do_POST env (Inr (PDict kvs))
                = Json 200 [(''success'', PBool True),
                            (''message'', PStr ''Registration submitted successfully''),
                            (''registration_id'', PStr (generate_registration_id env sub)),
                            (''status'', PStr ''pending_verification'')]"
    using register_agent_accepts [OF all build_submission_present [OF all]]
    by simp
qed (simp_all add: register_agent_def register_agent_try_def do_POST_def do_POST_try_def
      find_first_missing)

theorem missing_required_field_rejected_witness:
  "\<not> truthy (dict_get ((''moltbook_username'', PStr '''') # tl payload_without_response)
                ''moltbook_username'' PNone)
   \<and> register_agent handler_env []
        (PDict ((''moltbook_username'', PStr '''') # tl payload_without_response))
       = (Json 400 [(''success'', PBool False),
                    (''error'', PStr ''Missing required field: moltbook_username'')], [])
   \<and> truthy (dict_get (take 1 payload_without_response) ''moltbook_username'' PNone)
   \<and> \<not> truthy (dict_get (take 1 payload_without_response) ''blockchain_address'' PNone)
   \<and> \<not> truthy (dict_get (take 1 payload_without_response) ''verification_signature'' PNone)
   \<and> register_agent handler_env [] (PDict (take 1 payload_without_response))
       = (Json 400 [(''success'', PBool False),
                    (''error'', PStr ''Missing required field: blockchain_address'')], [])
   \<and> do_POST handler_env (Inr (PDict (take 1 payload_without_response)))
       = Error_page 400 ''Missing required field: blockchain_address''
   \<and> \<not> truthy (dict_get (take 2 payload_without_response) ''specializations'' PNone)
   \<and> register_agent handler_env [] (PDict (take 2 payload_without_response))
       = (Json 400 [(''success'', PBool False),
                    (''error'', PStr ''Missing required field: specializations'')], [])
   \<and> \<not> truthy (dict_get (take 3 payload_without_response) ''verification_signature'' PNone)
   \<and> register_agent handler_env [] (PDict (take 3 payload_without_response))
       = (Json 400 [(''success'', PBool False),
                    (''error'', PStr ''Missing required field: verification_signature'')], [])
   \<and> do_POST handler_env (Inr (PDict (take 3 payload_without_response)))
       = Error_page 400 ''Missing required field: verification_signature''
   \<and> truthy (dict_get payload_without_response ''moltbook_username'' PNone)
   \<and> truthy (dict_get payload_without_response ''blockchain_address'' PNone)
   \<and> truthy (dict_get payload_without_response ''specializations'' PNone)
   \<and> truthy (dict_get payload_without_response ''verification_signature'' PNone)
   \<and> register_agent handler_env [] (PDict payload_without_response)
       = (Json 200 [(''success'', PBool True),
                    (''message'', PStr ''Registration submitted successfully''),
                    (''registration_id'', PStr (generate_registration_id handler_env alice_submission))],
          [alice_submission])"
proof -
  let ?p0 = "(''moltbook_username'', PStr '''') # tl payload_without_response"
  let ?p1 = "take 1 payload_without_response"
  let ?p2 = "take 2 payload_without_response"
  let ?p3 = "take 3 payload_without_response"
  have t0: "\<not> truthy (dict_get ?p0 ''moltbook_username'' PNone)"
    by (simp add: payload_without_response_def dict_get_def)
  have t1: "truthy (dict_get ?p1 ''moltbook_username'' PNone)"
           "\<not> truthy (dict_get ?p1 ''blockchain_address'' PNone)"
           "\<not> truthy (dict_get ?p1 ''verification_signature'' PNone)"
    by (simp_all add: payload_without_response_def dict_get_def)
  have t2: "truthy (dict_get ?p2 ''moltbook_username'' PNone)"
           "truthy (dict_get ?p2 ''blockchain_address'' PNone)"
           "\<not> truthy (dict_get ?p2 ''specializations'' PNone)"
    by (simp_all add: payload_without_response_def dict_get_def)
  have t3: "truthy (dict_get ?p3 ''moltbook_username'' PNone)"
           "truthy (dict_get ?p3 ''blockchain_address'' PNone)"
           "truthy (dict_get ?p3 ''specializations'' PNone)"
           "\<not> truthy (dict_get ?p3 ''verification_signature'' PNone)"
    by (simp_all add: payload_without_response_def dict_get_def)
  have t4: "truthy (dict_get payload_without_response ''moltbook_username'' PNone)"
           "truthy (dict_get payload_without_response ''blockchain_address'' PNone)"
           "truthy (dict_get payload_without_response ''specializations'' PNone)"
           "truthy (dict_get payload_without_response ''verification_signature'' PNone)"
    by (simp_all add: payload_without_response_def dict_get_def)
  have sub: "\<lparr>sub_username = dict_get payload_without_response ''moltbook_username'' PNone,
             sub_blockchain_address = dict_get payload_without_response ''blockchain_address'' PNone,
             sub_specializations = dict_get payload_without_response ''specializations'' PNone,
             sub_motivation = dict_get payload_without_response ''motivation'' (PStr ''''),
             sub_email = dict_get payload_without_response ''email'' (PStr ''''),
             sub_verification_signature =
               dict_get payload_without_response ''verification_signature'' PNone,
             sub_challenge_response =
               dict_get payload_without_response ''challenge_response'' (PStr ''''),
             sub_timestamp = now_iso handler_env,
             sub_ip_address = remote_addr handler_env\<rparr> = alice_submission"
    by (simp add: payload_without_response_def dict_get_def handler_env_def alice_submission_def)
  note r0 = missing_required_field_rejected [of ?p0 handler_env "[]"]
  note r1 = missing_required_field_rejected [of ?p1 handler_env "[]"]
  note r2 = missing_required_field_rejected [of ?p2 handler_env "[]"]
  note r3 = missing_required_field_rejected [of ?p3 handler_env "[]"]
  note r4 = missing_required_field_rejected [of payload_without_response handler_env "[]"]
  have a0: "register_agent handler_env [] (PDict ?p0)
            = (Json 400 [(''success'', PBool False),
                         (''error'', PStr ''Missing required field: moltbook_username'')], [])"
    using r0 t0 by blast
  have a1: "register_agent handler_env [] (PDict ?p1)
            = (Json 400 [(''success'', PBool False),
                         (''error'', PStr ''Missing required field: blockchain_address'')], [])"
           "do_POST handler_env (Inr (PDict ?p1))
            = Error_page 400 ''Missing required field: blockchain_address''"
    using r1 t1 by blast+
  have a2: "register_agent handler_env [] (PDict ?p2)
            = (Json 400 [(''success'', PBool False),
                         (''error'', PStr ''Missing required field: specializations'')], [])"
    using r2 t2 by blast
  have a3: "register_agent handler_env [] (PDict ?p3)
            = (Json 400 [(''success'', PBool False),
                         (''error'', PStr ''Missing required field: verification_signature'')], [])"
           "do_POST handler_env (Inr (PDict ?p3))
            = Error_page 400 ''Missing required field: verification_signature''"
    using r3 t3 by blast+
  have a4: "register_agent handler_env [] (PDict payload_without_response)
       = (Json 200 [(''success'', PBool True),
                    (''message'', PStr ''Registration submitted successfully''),
                    (''registration_id'', PStr (generate_registration_id handler_env alice_submission))],
          [alice_submission])"
    using r4 t4 sub by auto
  show ?thesis
    using t0 a0 t1 a1 t2(3) a2 t3(4) a3 t4 a4 by blast
qed

section \<open>Request identifiers\<close>

text \<open>
  C5. The claim: the request id is derived deterministically from the identity, the
  submission timestamp and the claimed address, so equal values give equal ids. That
  holds for the \<^verbatim>\<open>registration_id\<close> of the two HTTP handlers. The
  \<^verbatim>\<open>request_id\<close> of a \<^verbatim>\<open>RegistrationRequest\<close> is \<^verbatim>\<open>secrets.token_hex(16)\<close>: two
  requests created from the same submission at the same time, which agree in username,
  timestamp and address, get the two random tokens drawn for them.
\<close>

theorem request_id_not_derived:
  "create_registration_request (at_time 1000 ''a3f1'') invited_alice (alice_submits ''tok'')
     = (''a3f1'',
        invited_alice\<lparr>pending_registrations := (pending_registrations invited_alice)
          (''a3f1'' \<mapsto> Request \<lparr>rr_request_id = ''a3f1'', rr_moltbook_username = ''alice'',
             rr_blockchain_address = ''0xAbC1'', rr_specialization = [''governance'', ''research''],
             rr_motivation = '''', rr_timestamp = 1000, rr_verification_challenge = ''tok'',
             rr_status = ''pending''\<rparr>)\<rparr>)
   \<and> create_registration_request (at_time 1000 ''77c0'') invited_alice (alice_submits ''tok'')
     = (''77c0'',
        invited_alice\<lparr>pending_registrations := (pending_registrations invited_alice)
          (''77c0'' \<mapsto> Request \<lparr>rr_request_id = ''77c0'', rr_moltbook_username = ''alice'',
             rr_blockchain_address = ''0xAbC1'', rr_specialization = [''governance'', ''research''],
             rr_motivation = '''', rr_timestamp = 1000, rr_verification_challenge = ''tok'',
             rr_status = ''pending''\<rparr>)\<rparr>)
   \<and> fst (create_registration_request (at_time 1000 ''a3f1'') invited_alice (alice_submits ''tok''))
       \<noteq> fst (create_registration_request (at_time 1000 ''77c0'') invited_alice (alice_submits ''tok''))"
  by (simp add: create_registration_request_def Let_def at_time_def alice_submits_def get_or_def)

text \<open>
  C5, as the code has it: the \<^verbatim>\<open>registration_id\<close> that the two HTTP submission handlers
  return is the first 16 characters of the hexadecimal SHA-256 digest of the
  concatenation of the username, the timestamp and the address of the submission, so
  submissions equal in these three get the same id; the \<^verbatim>\<open>request_id\<close> of a request
  created by the recruiter is the random token drawn for it, whatever the fields.
\<close>

theorem registration_id_deterministic:
  "generate_registration_id env r
     = take 16 (sha256_hexdigest env
                  (py_str env (sub_username r) @ sub_timestamp r
                     @ py_str env (sub_blockchain_address r)))
   \<and> length (generate_registration_id env r) \<le> 16
   \<and> (sub_username r = sub_username r' \<and> sub_timestamp r = sub_timestamp r'
      \<and> sub_blockchain_address r = sub_blockchain_address r'
      \<longrightarrow> generate_registration_id env r = generate_registration_id env r')
   \<and> ((\<forall>field\<in>set required_fields. truthy (dict_get kvs field PNone)) \<longrightarrow>
        (\<exists>sub. sub_username sub = dict_get kvs ''moltbook_username'' PNone
              \<and> sub_timestamp sub = now_iso env
              \<and> sub_blockchain_address sub = dict_get kvs ''blockchain_address'' PNone
              \<and> fst (register_agent env saved (PDict kvs))
                  = Json 200 [(''success'', PBool True),
                              (''message'', PStr ''Registration submitted successfully''),
                              (''registration_id'', PStr (generate_registration_id env sub))]
              \<and> do_POST env (Inr (PDict kvs))
                  = Json 200 [(''success'', PBool True),
                              (''message'', PStr ''Registration submitted successfully''),
                              (''registration_id'', PStr (generate_registration_id env sub)),
                              (''status'', PStr ''pending_verification'')]))
   \<and> fst (create_registration_request rd st reg) = token_hex rd"
proof (intro conjI impI)
  show "generate_registration_id env r
          = take 16 (sha256_hexdigest env
                       (py_str env (sub_username r) @ sub_timestamp r
                          @ py_str env (sub_blockchain_address r)))"
    by (simp add: generate_registration_id_def)
next
  show "length (generate_registration_id env r) \<le> 16"
    by (simp add: generate_registration_id_def)
next
  assume "sub_username r = sub_username r' \<and> sub_timestamp r = sub_timestamp r'
          \<and> sub_blockchain_address r = sub_blockchain_address r'"
  then show "generate_registration_id env r = generate_registration_id env r'"
    by (simp add: generate_registration_id_def)
next
  assume all: "\<forall>field\<in>set required_fields. truthy (dict_get kvs field PNone)"
  note b = build_submission_present [OF all, of env]
  show "\<exists>sub. sub_username sub = dict_get kvs ''moltbook_username'' PNone
              \<and> sub_timestamp sub = now_iso env
              \<and> sub_blockchain_address sub = dict_get kvs ''blockchain_address'' PNone
              \<and> fst (register_agent env saved (PDict kvs))
                  = Json 200 [(''success'', PBool True),
                              (''message'', PStr ''Registration submitted successfully''),
                              (''registration_id'', PStr (generate_registration_id env sub))]
              \<and> do_POST env (Inr (PDict kvs))
                  = Json 200 [(''success'', PBool True),
                              (''message'', PStr ''Registration submitted successfully''),
                              (''registration_id'', PStr (generate_registration_id env sub)),
                              (''status'', PStr ''pending_verification'')]"
    using register_agent_accepts [OF all b]
    by (intro exI [of _ "\<lparr>sub_username = dict_get kvs ''moltbook_username'' PNone,
                sub_blockchain_address = dict_get kvs ''blockchain_address'' PNone,
                sub_specializations = dict_get kvs ''specializations'' PNone,
                sub_motivation = dict_get kvs ''motivation'' (PStr ''''),
                sub_email = dict_get kvs ''email'' (PStr ''''),
                sub_verification_signature = dict_get kvs ''verification_signature'' PNone,
                sub_challenge_response = dict_get kvs ''challenge_response'' (PStr ''''),
                sub_timestamp = now_iso env,
                sub_ip_address = remote_addr env\<rparr>"]) simp
next
  show "fst (create_registration_request rd st reg) = token_hex rd"
    by (rule fst_create)
qed

theorem registration_id_deterministic_witness:
  "generate_registration_id handler_env alice_submission
     = take 16 (sha256_hexdigest handler_env ''alice2024-05-01T10:00:000xAbC1'')
   \<and> generate_registration_id handler_env alice_submission = ''1CbAx000:00:01T1''
   \<and> sub_username alice_submission = sub_username (alice_submission\<lparr>sub_motivation := PStr ''again''\<rparr>)
   \<and> sub_timestamp alice_submission = sub_timestamp (alice_submission\<lparr>sub_motivation := PStr ''again''\<rparr>)
   \<and> sub_blockchain_address alice_submission
       = sub_blockchain_address (alice_submission\<lparr>sub_motivation := PStr ''again''\<rparr>)
   \<and> generate_registration_id handler_env alice_submission
       = generate_registration_id handler_env (alice_submission\<lparr>sub_motivation := PStr ''again''\<rparr>)
   \<and> truthy (dict_get payload_without_response ''moltbook_username'' PNone)
   \<and> truthy (dict_get payload_without_response ''blockchain_address'' PNone)
   \<and> truthy (dict_get payload_without_response ''specializations'' PNone)
   \<and> truthy (dict_get payload_without_response ''verification_signature'' PNone)
   \<and> (\<exists>sub. sub_username sub = PStr ''alice''
           \<and> sub_timestamp sub = ''2024-05-01T10:00:00''
           \<and> sub_blockchain_address sub = PStr ''0xAbC1''
           \<and> fst (register_agent handler_env [] (PDict payload_without_response))
               = Json 200 [(''success'', PBool True),
                           (''message'', PStr ''Registration submitted successfully''),
                           (''registration_id'', PStr (generate_registration_id handler_env sub))])
   \<and> fst (create_registration_request (at_time 1000 ''a3f1'') invited_alice (alice_submits ''tok''))
       = ''a3f1''"
proof -
  let ?r' = "alice_submission\<lparr>sub_motivation := PStr ''again''\<rparr>"
  have same: "sub_username alice_submission = sub_username ?r'"
             "sub_timestamp alice_submission = sub_timestamp ?r'"
             "sub_blockchain_address alice_submission = sub_blockchain_address ?r'"
    by simp_all
  have p: "truthy (dict_get payload_without_response ''moltbook_username'' PNone)"
          "truthy (dict_get payload_without_response ''blockchain_address'' PNone)"
          "truthy (dict_get payload_without_response ''specializations'' PNone)"
          "truthy (dict_get payload_without_response ''verification_signature'' PNone)"
    by (simp_all add: payload_without_response_def dict_get_def)
  have d: "dict_get payload_without_response ''moltbook_username'' PNone = PStr ''alice''"
          "dict_get payload_without_response ''blockchain_address'' PNone = PStr ''0xAbC1''"
          "now_iso handler_env = ''2024-05-01T10:00:00''"
          "token_hex (at_time 1000 ''a3f1'') = ''a3f1''"
    by (simp_all add: payload_without_response_def dict_get_def handler_env_def at_time_def)
  have joined: "py_str handler_env (sub_username alice_submission) @ sub_timestamp alice_submission
                @ py_str handler_env (sub_blockchain_address alice_submission)
              = ''alice2024-05-01T10:00:000xAbC1''"
    by (simp add: handler_env_def alice_submission_def)
  have digest: "take 16 (sha256_hexdigest handler_env ''alice2024-05-01T10:00:000xAbC1'')
                = ''1CbAx000:00:01T1''"
    by (simp add: handler_env_def)
  note inst = registration_id_deterministic [of handler_env alice_submission ?r'
      payload_without_response "[]" "at_time 1000 ''a3f1''" invited_alice "alice_submits ''tok''"]
  have zero: "generate_registration_id handler_env alice_submission
              = take 16 (sha256_hexdigest handler_env ''alice2024-05-01T10:00:000xAbC1'')"
    using inst joined by simp
  have one: "generate_registration_id handler_env alice_submission
             = generate_registration_id handler_env ?r'"
    using inst same by blast
  have two: "\<exists>sub. sub_username sub = PStr ''alice''
           \<and> sub_timestamp sub = ''2024-05-01T10:00:00''
           \<and> sub_blockchain_address sub = PStr ''0xAbC1''
           \<and> fst (register_agent handler_env [] (PDict payload_without_response))
               = Json 200 [(''success'', PBool True),
                           (''message'', PStr ''Registration submitted successfully''),
                           (''registration_id'', PStr (generate_registration_id handler_env sub))]"
    using inst payload_all_present d by auto
  have three: "fst (create_registration_request (at_time 1000 ''a3f1'') invited_alice
                      (alice_submits ''tok'')) = ''a3f1''"
    using inst d by simp
  show ?thesis
    using zero digest same one p two three by simp
qed

end
